theory Spec2Isabelle
  imports Main "HOL-Library.Word"
begin

section \<open>Diff Sentinel: the command pipeline and the two gates of \<open>src/index.js\<close>\<close>

text \<open>
  The script runs a list of shell commands through \<open>execa\<close>, asks \<open>use-git\<close> whether
  the working tree has a diff, and reports through \<open>@actions/core\<close>. The three
  libraries are collaborators: the executor, the version-control queries and the writing
  of the job summary are parameters of the model (a record of ports over a world state
  \<open>'w\<close> that the commands change), and every call to a collaborator is appended to a
  trace of events, so that what ran, what was asked and what was emitted can be read off
  a run. Every awaited call may reject: the executor, the three git calls and
  \<open>core.summary.write()\<close>. The remaining calls to \<open>@actions/core\<close> and
  \<open>console.log\<close> only write to the log and are taken to return normally.
\<close>

subsection \<open>Values\<close>

type_synonym byte = "8 word"

text \<open>
  What converting a value to a string does: \<open>Converts t\<close> when the conversion gives the
  text \<open>t\<close>, \<open>Raises m\<close> when it raises a \<open>TypeError\<close> with the message \<open>m\<close> (a
  Symbol under the implicit conversion of \<open>join\<close>, an object without a usable
  \<open>toString\<close> such as \<open>Object.create(null)\<close>).
\<close>

datatype conversion =
    Converts string
  | Raises string

fun converts :: "conversion \<Rightarrow> bool" where
  "converts (Converts t) = True"
| "converts (Raises m) = False"

fun text_of :: "conversion \<Rightarrow> string" where
  "text_of (Converts t) = t"
| "text_of (Raises m) = []"

text \<open>
  The values \<open>normalizeOutput\<close> tells apart. It inspects its argument with
  \<open>typeof value === 'string'\<close>, \<open>Array.isArray(value)\<close> and
  \<open>value instanceof Uint8Array\<close>, and nothing else. An array is given, element by
  element, by what \<open>Array.prototype.join\<close> gets when it converts the element (a string
  element converts to itself, \<open>null\<close> and \<open>undefined\<close> to the empty text);
  \<open>JUndefined\<close> is \<open>undefined\<close>, the value of an absent property; \<open>JOther\<close> stands
  for every remaining value: \<open>null\<close>, a number, a boolean, any other object.
\<close>

datatype jsval =
    JString string
  | JArray "conversion list"
  | JUint8Array "byte list"
  | JUndefined
  | JOther

fun is_string :: "jsval \<Rightarrow> bool" where
  "is_string (JString s) = True"
| "is_string v = False"

fun isArray :: "jsval \<Rightarrow> bool" where
  "isArray (JArray xs) = True"
| "isArray v = False"

fun instanceof_Uint8Array :: "jsval \<Rightarrow> bool" where
  "instanceof_Uint8Array (JUint8Array bs) = True"
| "instanceof_Uint8Array v = False"

fun string_of :: "jsval \<Rightarrow> string" where
  "string_of (JString s) = s"
| "string_of v = []"

fun elements_of :: "jsval \<Rightarrow> conversion list" where
  "elements_of (JArray xs) = xs"
| "elements_of v = []"

fun bytes_of :: "jsval \<Rightarrow> byte list" where
  "bytes_of (JUint8Array bs) = bs"
| "bytes_of v = []"

text \<open>\<open>join(sep)\<close> on an array of strings: the elements with \<open>sep\<close> between neighbours.\<close>

fun join :: "string \<Rightarrow> string list \<Rightarrow> string" where
  "join sep [] = []"
| "join sep [x] = x"
| "join sep (x # y # ys) = x @ sep @ join sep (y # ys)"

text \<open>The line feed, \<open>'\n'\<close> in the source.\<close>

definition newline :: string where
  "newline = [CHR 0x0A]"

text \<open>
  \<open>String(n)\<close> and \<open>`${n}`\<close> for an integer-valued number: decimal digits, with a
  minus sign below zero.
\<close>

definition digit :: "nat \<Rightarrow> char" where
  "digit d = ''0123456789'' ! d"

function show_nat :: "nat \<Rightarrow> string" where
  "show_nat n = (if n < 10 then [digit n] else show_nat (n div 10) @ [digit (n mod 10)])"
  by pat_completeness auto
termination
  by (relation "measure id") auto

declare show_nat.simps [simp del]

definition show_int :: "int \<Rightarrow> string" where
  "show_int i = (if i < 0 then ''-'' @ show_nat (nat (- i)) else show_nat (nat i))"

definition show_bool :: "bool \<Rightarrow> string" where
  "show_bool b = (if b then ''true'' else ''false'')"

subsection \<open>Thrown values\<close>

text \<open>
  What a \<open>catch\<close> clause of the script can receive. \<open>ExecaError\<close> is execa's error
  class, a subclass of \<open>Error\<close>; its \<open>exitCode\<close> and \<open>signal\<close> are \<open>undefined\<close>
  (\<open>None\<close>) when the process did not exit, respectively was not killed by a signal.
  \<open>ErrorObj name message\<close> is any other \<open>Error\<close> instance; \<open>NonError c\<close> is a thrown
  value that is not an \<open>Error\<close>, given by what \<open>String(value)\<close> does with it.
\<close>

record execa_error =
  ee_exitCode :: "int option"
  ee_signal :: "string option"
  ee_message :: string
  ee_stdout :: jsval
  ee_stderr :: jsval

datatype thrown =
    ExecaError execa_error
  | ErrorObj string string
  | NonError conversion

fun instanceof_ExecaError :: "thrown \<Rightarrow> bool" where
  "instanceof_ExecaError (ExecaError e) = True"
| "instanceof_ExecaError t = False"

fun instanceof_Error :: "thrown \<Rightarrow> bool" where
  "instanceof_Error (NonError c) = False"
| "instanceof_Error t = True"

fun error_name :: "thrown \<Rightarrow> string" where
  "error_name (ExecaError e) = ''ExecaError''"
| "error_name (ErrorObj n m) = n"
| "error_name (NonError c) = []"

fun error_message :: "thrown \<Rightarrow> string" where
  "error_message (ExecaError e) = ee_message e"
| "error_message (ErrorObj n m) = m"
| "error_message (NonError c) = []"

text \<open>The \<open>Error\<close> made by \<open>new Error(msg)\<close>, and the \<open>TypeError\<close> a failed conversion raises.\<close>

definition new_Error :: "string \<Rightarrow> thrown" where
  "new_Error msg = ErrorObj ''Error'' msg"

definition TypeError :: "string \<Rightarrow> thrown" where
  "TypeError msg = ErrorObj ''TypeError'' msg"

text \<open>
  \<open>String(error)\<close>. For an \<open>Error\<close> instance this is \<open>Error.prototype.toString\<close>:
  the name alone when the message is empty, the message alone when the name is empty,
  and \<open>name: message\<close> otherwise. For any other value it is the value's own conversion,
  which can raise.
\<close>

fun String_thrown :: "thrown \<Rightarrow> thrown + string" where
  "String_thrown (NonError (Converts t)) = Inr t"
| "String_thrown (NonError (Raises m)) = Inl (TypeError m)"
| "String_thrown t =
     Inr (if error_name t = [] then error_message t
          else if error_message t = [] then error_name t
          else error_name t @ '': '' @ error_message t)"

subsection \<open>\<open>normalizeOutput\<close>\<close>

text \<open>
  \<open>value.join('\n')\<close> on an arbitrary array converts the elements from left to right
  and raises at the first one that has no conversion.
\<close>

fun convert_all :: "conversion list \<Rightarrow> thrown + string list" where
  "convert_all [] = Inr []"
| "convert_all (Converts t # cs) =
     (case convert_all cs of Inl e \<Rightarrow> Inl e | Inr ts \<Rightarrow> Inr (t # ts))"
| "convert_all (Raises m # cs) = Inl (TypeError m)"

definition Array_join :: "string \<Rightarrow> conversion list \<Rightarrow> thrown + string" where
  "Array_join sep cs =
     (case convert_all cs of Inl e \<Rightarrow> Inl e | Inr ts \<Rightarrow> Inr (join sep ts))"

text \<open>
  \<open>Buffer.from(value).toString()\<close> is Node's UTF-8 decoder; it is the parameter
  \<open>decode\<close>.
\<close>

definition normalizeOutput :: "(byte list \<Rightarrow> string) \<Rightarrow> jsval \<Rightarrow> thrown + string" where
  "normalizeOutput decode v =
     (if is_string v then Inr (string_of v)
      else if isArray v then Array_join newline (elements_of v)
      else if instanceof_Uint8Array v then Inr (decode (bytes_of v))
      else Inr [])"

subsection \<open>Collaborators, events and state\<close>

text \<open>
  \<open>await execa(command, {shell: true})\<close> resolves with a result holding
  \<open>stdout\<close> and \<open>stderr\<close>, or rejects with a thrown value.
\<close>

datatype exec_outcome =
    Resolved jsval jsval
  | Rejected thrown

datatype summary_item =
    addHeading string "nat option"
  | addRaw string
  | addList "string list"
  | addCodeBlock string string

text \<open>
  \<open>summary_write\<close> is \<open>core.summary.write()\<close> on the items added before it: it
  appends them to the job summary file, and rejects when that file cannot be written.
\<close>

record 'w ports =
  execa :: "string \<Rightarrow> 'w \<Rightarrow> exec_outcome \<times> 'w"
  Buffer_toString :: "byte list \<Rightarrow> string"
  git_hasDiff :: "'w \<Rightarrow> thrown + bool"
  git_getChangedFiles :: "'w \<Rightarrow> thrown + string list"
  git_diff :: "string list \<Rightarrow> 'w \<Rightarrow> thrown + unit"
  summary_write :: "summary_item list \<Rightarrow> 'w \<Rightarrow> thrown + unit"

datatype event =
    Execa string
  | GitHasDiff "thrown + bool"
  | GitGetChangedFiles "thrown + string list"
  | GitDiff "string list" "thrown + unit"
  | StartGroup string
  | EndGroup
  | SetOutput string string
  | Warning string
  | ErrorAnnotation string
  | Notice string
  | ConsoleLog string
  | SummaryWrite "summary_item list" "thrown + unit"

record 'w state =
  world :: 'w
  trace :: "event list"

definition emit :: "event \<Rightarrow> 'w state \<Rightarrow> 'w state" where
  "emit e s = s\<lparr>trace := trace s @ [e]\<rparr>"

definition emits :: "event list \<Rightarrow> 'w state \<Rightarrow> 'w state" where
  "emits es s = s\<lparr>trace := trace s @ es\<rparr>"

subsection \<open>\<open>runCommand\<close> and \<open>runCommands\<close>\<close>

text \<open>
  \<open>exitCode\<close> and \<open>signal\<close> hold \<open>null\<close> (\<open>None\<close>) when absent; \<open>message\<close> is an
  optional property, \<open>None\<close> when the object literal has no such key.
\<close>

record CommandResult =
  command :: string
  ok :: bool
  stdout :: string
  stderr :: string
  exitCode :: "int option"
  signal :: "string option"
  message :: "string option"

text \<open>
  The \<open>try\<close> block of \<open>runCommand(command)\<close>; the script never passes the second
  argument, so the options are \<open>{shell: true}\<close> throughout. It throws what the
  executor rejects with, or what normalizing \<open>result.stdout\<close> and then
  \<open>result.stderr\<close> raises.
\<close>

definition runCommand_try ::
  "'w ports \<Rightarrow> string \<Rightarrow> 'w state \<Rightarrow> (thrown + CommandResult) \<times> 'w state" where
  "runCommand_try p cmd s =
     (case execa p cmd (world s) of
        (outcome, w') \<Rightarrow>
          (let s' = emit (Execa cmd) (s\<lparr>world := w'\<rparr>) in
           case outcome of
             Rejected error \<Rightarrow> (Inl error, s')
           | Resolved out err \<Rightarrow>
               (case normalizeOutput (Buffer_toString p) out of
                  Inl e \<Rightarrow> (Inl e, s')
                | Inr so \<Rightarrow>
                    (case normalizeOutput (Buffer_toString p) err of
                       Inl e \<Rightarrow> (Inl e, s')
                     | Inr se \<Rightarrow>
                         (Inr \<lparr>command = cmd, ok = True, stdout = so, stderr = se,
                               exitCode = None, signal = None, message = None\<rparr>, s')))))"

text \<open>
  The \<open>catch\<close> clause of \<open>runCommand\<close>. Nothing guards it: what
  \<open>normalizeOutput(error.stdout)\<close>, \<open>normalizeOutput(error.stderr)\<close> or
  \<open>String(error)\<close> raises leaves \<open>runCommand\<close>.
\<close>

definition runCommand_catch ::
  "(byte list \<Rightarrow> string) \<Rightarrow> string \<Rightarrow> thrown \<Rightarrow> thrown + CommandResult" where
  "runCommand_catch decode cmd error =
     (case error of
        ExecaError e \<Rightarrow>
          (case normalizeOutput decode (ee_stdout e) of
             Inl x \<Rightarrow> Inl x
           | Inr so \<Rightarrow>
               (case normalizeOutput decode (ee_stderr e) of
                  Inl x \<Rightarrow> Inl x
                | Inr se \<Rightarrow>
                    Inr \<lparr>command = cmd, ok = False, stdout = so, stderr = se,
                         exitCode = ee_exitCode e, signal = ee_signal e,
                         message = Some (ee_message e)\<rparr>))
      | _ \<Rightarrow>
          (case String_thrown error of
             Inl x \<Rightarrow> Inl x
           | Inr t \<Rightarrow>
               Inr \<lparr>command = cmd, ok = False, stdout = [], stderr = [],
                    exitCode = None, signal = None, message = Some t\<rparr>))"

definition runCommand ::
  "'w ports \<Rightarrow> string \<Rightarrow> 'w state \<Rightarrow> (thrown + CommandResult) \<times> 'w state" where
  "runCommand p cmd s =
     (case runCommand_try p cmd s of
        (Inr r, s') \<Rightarrow> (Inr r, s')
      | (Inl error, s') \<Rightarrow> (runCommand_catch (Buffer_toString p) cmd error, s'))"

text \<open>
  The loop of \<open>runCommands\<close>, with \<open>results\<close> as the accumulator. A rejected
  \<open>await runCommand(command)\<close> leaves the loop.
\<close>

fun runCommands_loop ::
  "'w ports \<Rightarrow> string list \<Rightarrow> CommandResult list \<Rightarrow> 'w state
     \<Rightarrow> (thrown + CommandResult list) \<times> 'w state" where
  "runCommands_loop p [] results s = (Inr results, s)"
| "runCommands_loop p (cmd # cmds) results s =
     (case runCommand p cmd s of
        (Inl e, s') \<Rightarrow> (Inl e, s')
      | (Inr r, s') \<Rightarrow> runCommands_loop p cmds (results @ [r]) s')"

definition runCommands ::
  "'w ports \<Rightarrow> string list \<Rightarrow> 'w state \<Rightarrow> (thrown + CommandResult list) \<times> 'w state" where
  "runCommands p cmds s = runCommands_loop p cmds [] s"

subsection \<open>Inputs\<close>

text \<open>
  The inputs as \<open>@actions/core\<close> hands them over: \<open>commands\<close> is
  \<open>core.getMultilineInput('run')\<close>, \<open>fail_message_input\<close> is
  \<open>core.getInput('fail-message')\<close> (the empty string when the input is not set), the
  two switches are the \<open>core.getBooleanInput\<close> values. The banner printed before the
  inputs are read is not modelled.
\<close>

record config =
  commands :: "string list"
  fail_message_input :: string
  failOnCommandError :: bool
  failOnDiff :: bool

definition default_fail_message :: string where
  "default_fail_message = ''Generated or formatted files are out of date.''"

text \<open>\<open>core.getInput('fail-message') || '...'\<close>: the empty string is the only falsy string.\<close>

definition failMessage :: "config \<Rightarrow> string" where
  "failMessage cfg =
     (if fail_message_input cfg \<noteq> [] then fail_message_input cfg else default_fail_message)"

subsection \<open>The command-failure gate\<close>

text \<open>Template-literal renderings of \<open>f.exitCode\<close> and \<open>f.message\<close>.\<close>

fun template_exitCode :: "int option \<Rightarrow> string" where
  "template_exitCode None = ''null''"
| "template_exitCode (Some n) = show_int n"

fun template_message :: "string option \<Rightarrow> string" where
  "template_message None = ''undefined''"
| "template_message (Some m) = m"

text \<open>The body of the loop over \<open>failures\<close>.\<close>

definition report_failure :: "CommandResult \<Rightarrow> event list" where
  "report_failure f =
     [Warning (''Command failed: '' @ command f)]
     @ (if exitCode f \<noteq> None then [Warning (''Exit code: '' @ template_exitCode (exitCode f))]
        else [])
     @ (if stderr f \<noteq> [] then [ErrorAnnotation (stderr f)] else [])"

definition failure_line :: "CommandResult \<Rightarrow> string" where
  "failure_line f =
     ''- '' @ command f @ '' (exit code: '' @ template_exitCode (exitCode f) @ ''): ''
     @ template_message (message f)"

definition command_error_message :: "CommandResult list \<Rightarrow> string" where
  "command_error_message failures =
     ''Command execution failed ('' @ show_nat (length failures) @ '' failures):'' @ newline
     @ join newline (map failure_line failures)"

definition command_failure_gate ::
  "config \<Rightarrow> CommandResult list \<Rightarrow> 'w state \<Rightarrow> (thrown + unit) \<times> 'w state" where
  "command_failure_gate cfg results s =
     (let failures = filter (\<lambda>r. \<not> ok r) results;
          s1 = emit (SetOutput ''command_failures'' (show_nat (length failures))) s
      in if length failures > 0 then
           (let s2 = emits ([StartGroup ''Command failures'']
                            @ concat (map report_failure failures)
                            @ [EndGroup]) s1
            in if failOnCommandError cfg
               then (Inl (new_Error (command_error_message failures)), s2)
               else (Inr (), s2))
         else (Inr (), s1))"

subsection \<open>The diff gate\<close>

text \<open>
  How the script stops: \<open>process.exit(code)\<close>, the end of the script, the outer
  \<open>catch\<close> calling \<open>core.setFailed\<close>, or that \<open>catch\<close> clause raising itself.
\<close>

datatype run_end =
    ProcessExit nat
  | EndOfScript
  | SetFailed string
  | Uncaught thrown

definition clean_summary :: "summary_item list" where
  "clean_summary =
     [addHeading ''Diff Sentinel'' None,
      addRaw (''No uncommitted changes detected'' @ newline)]"

definition failed_summary :: "config \<Rightarrow> string list \<Rightarrow> summary_item list" where
  "failed_summary cfg changedFiles =
     [addHeading ''Diff Sentinel Failed'' (Some 1),
      addRaw (failMessage cfg @ newline),
      addHeading ''Changed files'' (Some 3),
      addList changedFiles,
      addHeading ''How to fix'' (Some 3),
      addCodeBlock (join newline (commands cfg)) ''bash'']"

definition diff_gate ::
  "'w ports \<Rightarrow> config \<Rightarrow> 'w state \<Rightarrow> (thrown + run_end) \<times> 'w state" where
  "diff_gate p cfg s =
     (let answer = git_hasDiff p (world s);
          s1 = emit (GitHasDiff answer) s
      in case answer of
           Inl e \<Rightarrow> (Inl e, s1)
         | Inr diffExists \<Rightarrow>
             (let s2 = emit (SetOutput ''has_diff'' (show_bool diffExists)) s1
              in if \<not> diffExists then
                   (let s3 = emit (Notice ''Working tree is clean'') s2;
                        written = summary_write p clean_summary (world s3);
                        s4 = emit (SummaryWrite clean_summary written) s3
                    in case written of
                         Inl e \<Rightarrow> (Inl e, s4)
                       | Inr u \<Rightarrow> (Inr (ProcessExit 0), s4))
                 else
                   (let listed = git_getChangedFiles p (world s2);
                        s3 = emit (GitGetChangedFiles listed) s2
                    in case listed of
                         Inl e \<Rightarrow> (Inl e, s3)
                       | Inr changedFiles \<Rightarrow>
                           (let s4 = emits
                                  ([SetOutput ''changed_files'' (join newline changedFiles),
                                    SetOutput ''diff_count'' (show_nat (length changedFiles)),
                                    StartGroup ''Changed files'']
                                   @ map (\<lambda>f. ConsoleLog (''- '' @ f)) changedFiles
                                   @ [EndGroup, StartGroup ''Diff'']) s3;
                                printed = git_diff p changedFiles (world s4);
                                s5 = emit (GitDiff changedFiles printed) s4
                            in case printed of
                                 Inl e \<Rightarrow> (Inl e, s5)
                               | Inr u \<Rightarrow>
                                   (let s6 = emit EndGroup s5;
                                        written = summary_write p
                                                    (failed_summary cfg changedFiles) (world s6);
                                        s7 = emit (SummaryWrite (failed_summary cfg changedFiles)
                                                     written) s6
                                    in case written of
                                         Inl e \<Rightarrow> (Inl e, s7)
                                       | Inr u' \<Rightarrow>
                                           if failOnDiff cfg
                                           then (Inl (new_Error (failMessage cfg)), s7)
                                           else (Inr EndOfScript, s7))))))"

subsection \<open>The script\<close>

text \<open>The statements inside the outer \<open>try\<close>, after the inputs are read.\<close>

definition script_body ::
  "'w ports \<Rightarrow> config \<Rightarrow> 'w state \<Rightarrow> (thrown + run_end) \<times> 'w state" where
  "script_body p cfg s =
     (case runCommands p (commands cfg) (emit (StartGroup ''Running commands'') s) of
        (Inl e, s1) \<Rightarrow> (Inl e, s1)
      | (Inr results, s1) \<Rightarrow>
          (case command_failure_gate cfg results (emit EndGroup s1) of
             (Inl e, s2) \<Rightarrow> (Inl e, s2)
           | (Inr u, s2) \<Rightarrow> diff_gate p cfg s2))"

text \<open>
  The outer \<open>catch\<close>: what \<open>core.setFailed\<close> is called with, when building that
  text does not raise.
\<close>

definition failure_text :: "thrown \<Rightarrow> thrown + string" where
  "failure_text error =
     (if instanceof_Error error then Inr (error_name error @ '': '' @ error_message error)
      else String_thrown error)"

definition main :: "'w ports \<Rightarrow> config \<Rightarrow> 'w state \<Rightarrow> run_end \<times> 'w state" where
  "main p cfg s =
     (case script_body p cfg s of
        (Inl error, s') \<Rightarrow>
          (case failure_text error of
             Inl e \<Rightarrow> (Uncaught e, s')
           | Inr t \<Rightarrow> (SetFailed t, s'))
      | (Inr fin, s') \<Rightarrow> (fin, s'))"

text \<open>A run from the world \<open>w\<close>, with nothing emitted yet.\<close>

definition run :: "'w ports \<Rightarrow> config \<Rightarrow> 'w \<Rightarrow> run_end \<times> 'w state" where
  "run p cfg w = main p cfg \<lparr>world = w, trace = []\<rparr>"

subsection \<open>The events of the command-failure gate\<close>

text \<open>What the gate appends to the trace, as a function of the results.\<close>

definition command_failure_events :: "CommandResult list \<Rightarrow> event list" where
  "command_failure_events results =
     (let failures = filter (\<lambda>r. \<not> ok r) results
      in SetOutput ''command_failures'' (show_nat (length failures))
         # (if failures = [] then []
            else [StartGroup ''Command failures'']
                 @ concat (map report_failure failures)
                 @ [EndGroup]))"

text \<open>
  The events that can occur before the diff gate: process launches, groups, the
  \<open>command_failures\<close> output and the annotations of the failure report.
\<close>

fun before_diff_gate :: "event \<Rightarrow> bool" where
  "before_diff_gate (Execa c) = True"
| "before_diff_gate (StartGroup t) = True"
| "before_diff_gate EndGroup = True"
| "before_diff_gate (SetOutput k v) = (k = ''command_failures'')"
| "before_diff_gate (Warning t) = True"
| "before_diff_gate (ErrorAnnotation t) = True"
| "before_diff_gate e = False"

subsection \<open>The events of the diff report\<close>

text \<open>
  What the diff gate appends, from the question to git up to the end of the \<open>Diff\<close>
  group, when a diff exists and the two further git calls return.
\<close>

definition diff_detail_events :: "string list \<Rightarrow> event list" where
  "diff_detail_events changedFiles =
     [GitHasDiff (Inr True),
      SetOutput ''has_diff'' ''true'',
      GitGetChangedFiles (Inr changedFiles),
      SetOutput ''changed_files'' (join newline changedFiles),
      SetOutput ''diff_count'' (show_nat (length changedFiles)),
      StartGroup ''Changed files'']
     @ map (\<lambda>f. ConsoleLog (''- '' @ f)) changedFiles
     @ [EndGroup,
        StartGroup ''Diff'',
        GitDiff changedFiles (Inr ()),
        EndGroup]"

subsection \<open>Outcomes the \<open>catch\<close> clause of \<open>runCommand\<close> can turn into a result\<close>

text \<open>
  \<open>normalizes v\<close>: every element of \<open>v\<close>, if it is an array, has a conversion.
  \<open>catchable outcome\<close>: the executor resolved, or it rejected with an \<open>ExecaError\<close>
  whose two outputs normalize, with another \<open>Error\<close>, or with a value that \<open>String\<close>
  converts.
\<close>

fun normalizes :: "jsval \<Rightarrow> bool" where
  "normalizes (JArray cs) = list_all converts cs"
| "normalizes v = True"

fun catchable :: "exec_outcome \<Rightarrow> bool" where
  "catchable (Resolved out err) = True"
| "catchable (Rejected (ExecaError e)) = (normalizes (ee_stdout e) \<and> normalizes (ee_stderr e))"
| "catchable (Rejected (ErrorObj n m)) = True"
| "catchable (Rejected (NonError c)) = converts c"

subsection \<open>Lines of a text\<close>

text \<open>\<open>text.split('\n')\<close>: the pieces between the line feeds.\<close>

fun split_lines :: "string \<Rightarrow> string list" where
  "split_lines [] = [[]]"
| "split_lines (c # cs) =
     (if c = CHR 0x0A then [] # split_lines cs
      else (case split_lines cs of
              [] \<Rightarrow> [[c]]
            | l # ls \<Rightarrow> (c # l) # ls))"

subsection \<open>An example world\<close>

text \<open>
  A world is the list of files with uncommitted changes. \<open>true\<close> succeeds and prints
  nothing, \<open>gen\<close> succeeds with two chunks of output and writes \<open>out.txt\<close>, \<open>boom\<close>
  makes the executor raise a \<open>TypeError\<close> before any process exists, \<open>noisy\<close> fails
  after printing a line, which execa appends to the error's message, and every other
  command fails with an exit code (2 for \<open>exit 2\<close>, 1 otherwise).
\<close>

definition demo_failure :: "string \<Rightarrow> execa_error" where
  "demo_failure cmd =
     \<lparr>ee_exitCode = Some (if cmd = ''exit 2'' then 2 else 1),
      ee_signal = None,
      ee_message = (if cmd = ''noisy'' then ''Command failed: noisy'' @ newline @ ''lint error''
                    else ''Command failed: '' @ cmd),
      ee_stdout = JString [],
      ee_stderr = JString (if cmd = ''noisy'' then ''lint error'' else ''failed'')\<rparr>"

definition demo_execa :: "string \<Rightarrow> string list \<Rightarrow> exec_outcome \<times> string list" where
  "demo_execa cmd w =
     (if cmd = ''true'' then (Resolved (JString []) (JString []), w)
      else if cmd = ''gen''
        then (Resolved (JArray [Converts ''a'', Converts ''b'']) JUndefined, w @ [''out.txt''])
      else if cmd = ''boom'' then (Rejected (ErrorObj ''TypeError'' ''bad options''), w)
      else (Rejected (ExecaError (demo_failure cmd)), w))"

definition ascii_decode :: "byte list \<Rightarrow> string" where
  "ascii_decode bs = map (\<lambda>b. char_of (unat b)) bs"

definition demo_ports :: "string list ports" where
  "demo_ports =
     \<lparr>execa = demo_execa,
      Buffer_toString = ascii_decode,
      git_hasDiff = (\<lambda>w. Inr (w \<noteq> [])),
      git_getChangedFiles = (\<lambda>w. Inr w),
      git_diff = (\<lambda>fs w. Inr ()),
      summary_write = (\<lambda>items w. Inr ())\<rparr>"

text \<open>The same world with a git that cannot list the changed files.\<close>

definition demo_ports_unlisted :: "string list ports" where
  "demo_ports_unlisted =
     demo_ports\<lparr>git_getChangedFiles := (\<lambda>w. Inl (ErrorObj ''Error'' ''not a git repository''))\<rparr>"

text \<open>The same world where the job summary file cannot be written.\<close>

definition demo_ports_no_summary :: "string list ports" where
  "demo_ports_no_summary =
     demo_ports\<lparr>summary_write := (\<lambda>items w. Inl (ErrorObj ''Error'' ''no summary file''))\<rparr>"

text \<open>
  The same world with an executor that rejects with a null-prototype object, which
  \<open>String\<close> cannot convert.
\<close>

definition demo_ports_throwing :: "string list ports" where
  "demo_ports_throwing =
     demo_ports\<lparr>execa :=
       (\<lambda>cmd w. (Rejected (NonError (Raises ''Cannot convert object to primitive value'')), w))\<rparr>"

definition demo_config :: "string list \<Rightarrow> string \<Rightarrow> bool \<Rightarrow> bool \<Rightarrow> config" where
  "demo_config cmds msg onError onDiff =
     \<lparr>commands = cmds, fail_message_input = msg,
      failOnCommandError = onError, failOnDiff = onDiff\<rparr>"

section \<open>Properties\<close>

subsection \<open>Auxiliary facts: conversions and the runner\<close>

lemma convert_all_converts:
  "list_all converts cs \<Longrightarrow> convert_all cs = Inr (map text_of cs)"
  by (induction cs rule: convert_all.induct) simp_all

lemma convert_all_raises:
  "\<not> list_all converts cs \<Longrightarrow> \<exists>m. Raises m \<in> set cs \<and> convert_all cs = Inl (TypeError m)"
  by (induction cs rule: convert_all.induct) (auto split: sum.splits)

lemma normalizeOutput_normalizes:
  "normalizes v \<Longrightarrow> \<exists>t. normalizeOutput d v = Inr t"
  by (cases v) (simp_all add: normalizeOutput_def Array_join_def convert_all_converts)

lemma normalizeOutput_raises:
  "\<not> normalizes v \<Longrightarrow> \<exists>m. normalizeOutput d v = Inl (TypeError m)"
proof (cases v)
  case (JArray cs)
  assume "\<not> normalizes v"
  with JArray obtain m where "convert_all cs = Inl (TypeError m)"
    using convert_all_raises [of cs] by auto
  with JArray show ?thesis
    by (auto simp add: normalizeOutput_def Array_join_def)
qed simp_all

lemma normalizeOutput_Inl:
  "normalizeOutput d v = Inl e \<Longrightarrow> \<not> normalizes v \<and> (\<exists>m. e = TypeError m)"
  using normalizeOutput_normalizes [of v d] normalizeOutput_raises [of v d]
  by (cases "normalizes v") auto

lemma runCommand_try_trace:
  "trace (snd (runCommand_try p cmd s)) = trace s @ [Execa cmd]"
  by (simp add: runCommand_try_def emit_def Let_def
        split: prod.splits exec_outcome.splits sum.splits)

lemma runCommand_trace:
  "trace (snd (runCommand p cmd s)) = trace s @ [Execa cmd]"
  using runCommand_try_trace [of p cmd s]
  by (auto simp add: runCommand_def split: prod.splits sum.splits)

lemma String_thrown_TypeError: "String_thrown (TypeError m) = Inr (if m = [] then ''TypeError'' else ''TypeError: '' @ m)"
  by (simp add: TypeError_def)

lemma runCommand_catch_TypeError:
  "\<exists>r. runCommand_catch d cmd (TypeError m) = Inr r \<and> command r = cmd \<and> \<not> ok r"
  by (simp add: runCommand_catch_def TypeError_def)

lemma runCommand_catchable:
  assumes "catchable (fst (execa p cmd (world s)))"
  shows "\<exists>r. fst (runCommand p cmd s) = Inr r \<and> command r = cmd"
proof (cases "fst (execa p cmd (world s))")
  case (Resolved out err)
  obtain w' where ex: "execa p cmd (world s) = (Resolved out err, w')"
    using Resolved by (cases "execa p cmd (world s)") simp
  show ?thesis
  proof (cases "normalizeOutput (Buffer_toString p) out")
    case (Inl e)
    then obtain m where "e = TypeError m"
      using normalizeOutput_Inl by blast
    with Inl ex runCommand_catch_TypeError [of "Buffer_toString p" cmd m] show ?thesis
      by (auto simp add: runCommand_def runCommand_try_def Let_def)
  next
    case so: (Inr so)
    show ?thesis
    proof (cases "normalizeOutput (Buffer_toString p) err")
      case (Inl e)
      then obtain m where "e = TypeError m"
        using normalizeOutput_Inl by blast
      with Inl so ex runCommand_catch_TypeError [of "Buffer_toString p" cmd m] show ?thesis
        by (auto simp add: runCommand_def runCommand_try_def Let_def)
    next
      case (Inr se)
      with so ex show ?thesis
        by (simp add: runCommand_def runCommand_try_def Let_def)
    qed
  qed
next
  case (Rejected error)
  obtain w' where ex: "execa p cmd (world s) = (Rejected error, w')"
    using Rejected by (cases "execa p cmd (world s)") simp
  have "\<exists>r. runCommand_catch (Buffer_toString p) cmd error = Inr r \<and> command r = cmd"
  proof (cases error)
    case (ExecaError e)
    with assms Rejected have "normalizes (ee_stdout e)" "normalizes (ee_stderr e)"
      by simp_all
    then obtain so se where "normalizeOutput (Buffer_toString p) (ee_stdout e) = Inr so"
      "normalizeOutput (Buffer_toString p) (ee_stderr e) = Inr se"
      using normalizeOutput_normalizes by blast
    with ExecaError show ?thesis
      by (simp add: runCommand_catch_def)
  next
    case (ErrorObj n m)
    then show ?thesis
      by (simp add: runCommand_catch_def)
  next
    case (NonError c)
    with assms Rejected obtain t where "c = Converts t"
      by (cases c) simp_all
    with NonError show ?thesis
      by (simp add: runCommand_catch_def)
  qed
  with ex show ?thesis
    by (simp add: runCommand_def runCommand_try_def Let_def)
qed

lemma runCommand_not_catchable:
  assumes "\<not> catchable (fst (execa p cmd (world s)))"
  shows "\<exists>m. fst (runCommand p cmd s) = Inl (TypeError m)"
proof (cases "fst (execa p cmd (world s))")
  case (Resolved out err)
  with assms show ?thesis by simp
next
  case (Rejected error)
  obtain w' where ex: "execa p cmd (world s) = (Rejected error, w')"
    using Rejected by (cases "execa p cmd (world s)") simp
  have "\<exists>m. runCommand_catch (Buffer_toString p) cmd error = Inl (TypeError m)"
  proof (cases error)
    case (ExecaError e)
    with assms Rejected have nn: "\<not> normalizes (ee_stdout e) \<or> \<not> normalizes (ee_stderr e)"
      by simp
    show ?thesis
    proof (cases "normalizes (ee_stdout e)")
      case False
      then obtain m where "normalizeOutput (Buffer_toString p) (ee_stdout e) = Inl (TypeError m)"
        using normalizeOutput_raises by blast
      with ExecaError show ?thesis
        by (auto simp add: runCommand_catch_def)
    next
      case True
      then obtain so where so: "normalizeOutput (Buffer_toString p) (ee_stdout e) = Inr so"
        using normalizeOutput_normalizes by blast
      from True nn obtain m where "normalizeOutput (Buffer_toString p) (ee_stderr e) = Inl (TypeError m)"
        using normalizeOutput_raises by blast
      with so ExecaError show ?thesis
        by (auto simp add: runCommand_catch_def)
    qed
  next
    case (ErrorObj n m)
    with assms Rejected show ?thesis by simp
  next
    case (NonError c)
    with assms Rejected obtain m where "c = Raises m"
      by (cases c) simp_all
    with NonError show ?thesis
      by (auto simp add: runCommand_catch_def)
  qed
  with ex show ?thesis
    by (simp add: runCommand_def runCommand_try_def Let_def)
qed


lemma runCommands_loop_returned:
  "runCommands_loop p cmds acc s = (Inr rs, s') \<Longrightarrow> trace s' = trace s @ map Execa cmds"
proof (induction cmds arbitrary: acc s)
  case Nil
  then show ?case by simp
next
  case (Cons c cs)
  obtain res s1 where rc: "runCommand p c s = (res, s1)"
    by (cases "runCommand p c s")
  have tr: "trace s1 = trace s @ [Execa c]"
    using runCommand_trace [of p c s] rc by simp
  show ?case
  proof (cases res)
    case (Inl e)
    with rc Cons.prems show ?thesis by simp
  next
    case (Inr r)
    with rc Cons.prems have "runCommands_loop p cs (acc @ [r]) s1 = (Inr rs, s')"
      by simp
    then have "trace s' = trace s1 @ map Execa cs"
      by (rule Cons.IH)
    with tr show ?thesis by simp
  qed
qed

lemma runCommands_loop_before:
  "\<forall>e\<in>set (trace s). before_diff_gate e \<Longrightarrow>
   \<forall>e\<in>set (trace (snd (runCommands_loop p cmds acc s))). before_diff_gate e"
proof (induction cmds arbitrary: acc s)
  case Nil
  then show ?case by simp
next
  case (Cons c cs)
  obtain res s1 where rc: "runCommand p c s = (res, s1)"
    by (cases "runCommand p c s")
  have tr: "trace s1 = trace s @ [Execa c]"
    using runCommand_trace [of p c s] rc by simp
  with Cons.prems have b1: "\<forall>e\<in>set (trace s1). before_diff_gate e"
    by simp
  show ?case
  proof (cases res)
    case (Inl e)
    with rc b1 show ?thesis by simp
  next
    case (Inr r)
    with rc Cons.IH [OF b1, of "acc @ [r]"] show ?thesis by simp
  qed
qed

lemma runCommand_try_ok: "runCommand_try p cmd s = (Inr r, s') \<Longrightarrow> ok r"
  by (auto simp add: runCommand_try_def Let_def
        split: prod.splits exec_outcome.splits sum.splits)

lemma runCommand_try_Inl:
  assumes "fst (runCommand_try p cmd s) = Inl error"
  shows "fst (execa p cmd (world s)) = Rejected error
       \<or> (\<exists>out err m. fst (execa p cmd (world s)) = Resolved out err
                        \<and> error = ErrorObj ''TypeError'' m)"
proof (cases "fst (execa p cmd (world s))")
  case (Rejected e)
  then obtain w' where "execa p cmd (world s) = (Rejected e, w')"
    by (cases "execa p cmd (world s)") simp
  with assms Rejected show ?thesis
    by (simp add: runCommand_try_def Let_def)
next
  case (Resolved out err)
  then obtain w' where ex: "execa p cmd (world s) = (Resolved out err, w')"
    by (cases "execa p cmd (world s)") simp
  from assms ex have "normalizeOutput (Buffer_toString p) out = Inl error
                    \<or> normalizeOutput (Buffer_toString p) err = Inl error"
    by (auto simp add: runCommand_try_def Let_def split: sum.splits)
  then have "\<exists>m. error = TypeError m"
    using normalizeOutput_Inl by blast
  with Resolved show ?thesis
    by (auto simp add: TypeError_def)
qed

subsection \<open>Auxiliary facts: the gates\<close>

lemma command_failure_gate_eq:
  "command_failure_gate cfg results s =
     (if filter (\<lambda>r. \<not> ok r) results \<noteq> [] \<and> failOnCommandError cfg
      then Inl (new_Error (command_error_message (filter (\<lambda>r. \<not> ok r) results)))
      else Inr (),
      emits (command_failure_events results) s)"
  by (simp add: command_failure_gate_def command_failure_events_def emit_def emits_def Let_def)

lemma before_report_failure: "e \<in> set (report_failure f) \<Longrightarrow> before_diff_gate e"
  by (auto simp add: report_failure_def split: if_splits)

lemma before_command_failure_events:
  assumes "e \<in> set (command_failure_events results)"
  shows "before_diff_gate e"
proof -
  from assms consider "\<exists>v. e = SetOutput ''command_failures'' v"
    | "e = StartGroup ''Command failures''" | "e = EndGroup"
    | f where "e \<in> set (report_failure f)"
    by (auto simp add: command_failure_events_def Let_def split: if_splits)
  then show ?thesis
    by cases (auto simp add: before_report_failure)
qed

lemma failure_text_new_Error: "failure_text (new_Error m) = Inr (''Error: '' @ m)"
  by (simp add: failure_text_def new_Error_def)

text \<open>The script once the commands have returned their results.\<close>

lemma script_body_returned:
  assumes "runCommands p (commands cfg)
             (emit (StartGroup ''Running commands'') s) = (Inr results, s1)"
  shows "trace s1 = trace s @ StartGroup ''Running commands'' # map Execa (commands cfg)"
    and "script_body p cfg s =
       (if filter (\<lambda>r. \<not> ok r) results \<noteq> [] \<and> failOnCommandError cfg
        then (Inl (new_Error (command_error_message (filter (\<lambda>r. \<not> ok r) results))),
              emits (command_failure_events results) (emit EndGroup s1))
        else diff_gate p cfg (emits (command_failure_events results) (emit EndGroup s1)))"
proof -
  from assms have "trace s1 = trace (emit (StartGroup ''Running commands'') s)
                     @ map Execa (commands cfg)"
    unfolding runCommands_def by (rule runCommands_loop_returned)
  then show "trace s1 = trace s @ StartGroup ''Running commands'' # map Execa (commands cfg)"
    by (simp add: emit_def)
  show "script_body p cfg s =
       (if filter (\<lambda>r. \<not> ok r) results \<noteq> [] \<and> failOnCommandError cfg
        then (Inl (new_Error (command_error_message (filter (\<lambda>r. \<not> ok r) results))),
              emits (command_failure_events results) (emit EndGroup s1))
        else diff_gate p cfg (emits (command_failure_events results) (emit EndGroup s1)))"
    by (simp add: script_body_def assms command_failure_gate_eq)
qed

lemma run_main:
  "run p cfg w =
     (case script_body p cfg \<lparr>world = w, trace = []\<rparr> of
        (Inl error, s') \<Rightarrow>
          (case failure_text error of
             Inl e \<Rightarrow> (Uncaught e, s')
           | Inr t \<Rightarrow> (SetFailed t, s'))
      | (Inr fin, s') \<Rightarrow> (fin, s'))"
  by (simp add: run_def main_def)

lemma run_trace: "trace (snd (run p cfg w)) = trace (snd (script_body p cfg \<lparr>world = w, trace = []\<rparr>))"
  by (simp add: run_main split: prod.splits sum.splits)

text \<open>Every run stays before the diff gate or enters it from a state whose trace does.\<close>

lemma script_body_split:
  obtains (early) "\<forall>e\<in>set (trace (snd (script_body p cfg \<lparr>world = w, trace = []\<rparr>))). before_diff_gate e"
  | (gate) sg where "\<forall>e\<in>set (trace sg). before_diff_gate e"
      and "script_body p cfg \<lparr>world = w, trace = []\<rparr> = diff_gate p cfg sg"
proof -
  define s0 where "s0 = emit (StartGroup ''Running commands'') \<lparr>world = w, trace = []\<rparr>"
  have b0: "\<forall>e\<in>set (trace s0). before_diff_gate e"
    by (simp add: s0_def emit_def)
  obtain res s1 where rc: "runCommands p (commands cfg) s0 = (res, s1)"
    by (cases "runCommands p (commands cfg) s0")
  have b1: "\<forall>e\<in>set (trace s1). before_diff_gate e"
    using runCommands_loop_before [OF b0, of p "commands cfg" "[]"] rc
    by (simp add: runCommands_def)
  show thesis
  proof (cases res)
    case (Inl e)
    with rc have "script_body p cfg \<lparr>world = w, trace = []\<rparr> = (Inl e, s1)"
      by (simp add: script_body_def s0_def)
    with b1 show thesis
      by (intro early) simp
  next
    case (Inr results)
    define sg where "sg = emits (command_failure_events results) (emit EndGroup s1)"
    have bg: "\<forall>e\<in>set (trace sg). before_diff_gate e"
      using b1 before_command_failure_events by (auto simp add: sg_def emits_def emit_def)
    have body: "script_body p cfg \<lparr>world = w, trace = []\<rparr> =
       (if filter (\<lambda>r. \<not> ok r) results \<noteq> [] \<and> failOnCommandError cfg
        then (Inl (new_Error (command_error_message (filter (\<lambda>r. \<not> ok r) results))), sg)
        else diff_gate p cfg sg)"
      using script_body_returned(2) [of p cfg "\<lparr>world = w, trace = []\<rparr>" results s1] rc Inr
      by (simp add: s0_def sg_def)
    show thesis
    proof (cases "filter (\<lambda>r. \<not> ok r) results \<noteq> [] \<and> failOnCommandError cfg")
      case True
      with body bg show thesis
        by (intro early) simp
    next
      case False
      with body have "script_body p cfg \<lparr>world = w, trace = []\<rparr> = diff_gate p cfg sg"
        by auto
      with bg show thesis
        by (rule gate)
    qed
  qed
qed

lemma diff_gate_dirty:
  assumes "GitDiff fs (Inr ()) \<in> set (trace (snd (diff_gate p cfg s)))"
    and "\<forall>e\<in>set (trace s). before_diff_gate e"
  shows "diff_gate p cfg s =
           (case summary_write p (failed_summary cfg fs) (world s) of
              Inl e \<Rightarrow> Inl e
            | Inr u \<Rightarrow> if failOnDiff cfg then Inl (new_Error (failMessage cfg))
                       else Inr EndOfScript,
            emits (diff_detail_events fs
                   @ [SummaryWrite (failed_summary cfg fs)
                        (summary_write p (failed_summary cfg fs) (world s))]) s)"
proof (cases "git_hasDiff p (world s)")
  case (Inl e)
  with assms show ?thesis
    by (auto simp add: diff_gate_def emit_def Let_def)
next
  case (Inr d)
  show ?thesis
  proof (cases d)
    case False
    with Inr assms show ?thesis
      by (auto simp add: diff_gate_def emit_def emits_def Let_def split: sum.splits)
  next
    case True
    with Inr assms show ?thesis
      by (auto simp add: diff_gate_def emit_def emits_def Let_def show_bool_def
            diff_detail_events_def split: sum.splits if_splits)
  qed
qed

lemma run_diff_reported:
  fixes p :: "'w ports"
  assumes "GitDiff fs (Inr ()) \<in> set (trace (snd (run p cfg w)))"
  obtains sg :: "'w state" where "\<forall>e\<in>set (trace sg). before_diff_gate e"
    and "trace (snd (run p cfg w)) =
           trace sg @ diff_detail_events fs
           @ [SummaryWrite (failed_summary cfg fs)
                (summary_write p (failed_summary cfg fs) (world sg))]"
    and "summary_write p (failed_summary cfg fs) (world sg) = Inr () \<and> failOnDiff cfg \<longrightarrow>
           fst (run p cfg w) = SetFailed (''Error: '' @ failMessage cfg)"
proof -
  have nb: "\<not> before_diff_gate (GitDiff fs (Inr ()))"
    by simp
  from assms have mem: "GitDiff fs (Inr ()) \<in> set (trace (snd (script_body p cfg \<lparr>world = w, trace = []\<rparr>)))"
    by (simp add: run_trace)
  show thesis
  proof (cases rule: script_body_split [of p cfg w])
    case early
    with mem nb show thesis by blast
  next
    case (gate sg)
    from mem gate(2) have "GitDiff fs (Inr ()) \<in> set (trace (snd (diff_gate p cfg sg)))"
      by simp
    then have dg: "diff_gate p cfg sg =
           (case summary_write p (failed_summary cfg fs) (world sg) of
              Inl e \<Rightarrow> Inl e
            | Inr u \<Rightarrow> if failOnDiff cfg then Inl (new_Error (failMessage cfg))
                       else Inr EndOfScript,
            emits (diff_detail_events fs
                   @ [SummaryWrite (failed_summary cfg fs)
                        (summary_write p (failed_summary cfg fs) (world sg))]) sg)"
      using gate(1) by (rule diff_gate_dirty)
    have tr: "trace (snd (run p cfg w)) =
           trace sg @ diff_detail_events fs
           @ [SummaryWrite (failed_summary cfg fs)
                (summary_write p (failed_summary cfg fs) (world sg))]"
      by (simp add: run_trace gate(2) dg emits_def)
    have out: "summary_write p (failed_summary cfg fs) (world sg) = Inr () \<and> failOnDiff cfg \<longrightarrow>
           fst (run p cfg w) = SetFailed (''Error: '' @ failMessage cfg)"
      by (simp add: run_main gate(2) dg failure_text_new_Error)
    from gate(1) tr out show thesis
      by (rule that)
  qed
qed

subsection \<open>Auxiliary facts: lines\<close>

lemma split_lines_nonempty: "split_lines x \<noteq> []"
  by (induction x) (auto split: list.splits)

lemma split_lines_plain: "CHR 0x0A \<notin> set x \<Longrightarrow> split_lines x = [x]"
  by (induction x) auto

lemma split_lines_first:
  "CHR 0x0A \<notin> set x \<Longrightarrow> split_lines (x @ CHR 0x0A # rest) = x # split_lines rest"
  by (induction x) auto

lemma split_lines_join:
  "xs \<noteq> [] \<Longrightarrow> \<forall>x\<in>set xs. CHR 0x0A \<notin> set x \<Longrightarrow> split_lines (join newline xs) = xs"
proof (induction newline xs rule: join.induct)
  case 1
  then show ?case by simp
next
  case (2 x)
  then show ?case by (simp add: split_lines_plain)
next
  case (3 x y ys)
  then show ?case
    by (simp add: newline_def split_lines_first)
qed

lemma digit_plain: "d < 10 \<Longrightarrow> digit d \<noteq> CHR 0x0A"
proof -
  assume "d < 10"
  then have "''0123456789'' ! d \<in> set ''0123456789''"
    by (intro nth_mem) simp
  then show ?thesis
    by (auto simp add: digit_def)
qed

lemma show_nat_plain: "CHR 0x0A \<notin> set (show_nat n)"
proof (induction n rule: show_nat.induct)
  case (1 n)
  show ?case
  proof (cases "n < 10")
    case True
    then show ?thesis
      using digit_plain [of n] by (subst show_nat.simps) auto
  next
    case False
    then have "CHR 0x0A \<notin> set (show_nat (n div 10))"
      by (rule "1.IH")
    moreover have "digit (n mod 10) \<noteq> CHR 0x0A"
      by (rule digit_plain) simp
    ultimately show ?thesis
      using False by (subst show_nat.simps) auto
  qed
qed

lemma template_exitCode_plain: "CHR 0x0A \<notin> set (template_exitCode c)"
  by (cases c) (simp_all add: show_int_def show_nat_plain)

lemma failure_line_plain:
  "CHR 0x0A \<notin> set (command f) \<Longrightarrow> CHR 0x0A \<notin> set (template_message (message f))
     \<Longrightarrow> CHR 0x0A \<notin> set (failure_line f)"
  by (simp add: failure_line_def template_exitCode_plain)

lemma command_error_message_lines:
  assumes "failures \<noteq> []"
    and "\<forall>f\<in>set failures. CHR 0x0A \<notin> set (command f)
                            \<and> CHR 0x0A \<notin> set (template_message (message f))"
  shows "split_lines (''Error: '' @ command_error_message failures) =
           (''Error: Command execution failed ('' @ show_nat (length failures) @ '' failures):'')
           # map failure_line failures"
proof -
  have head: "CHR 0x0A \<notin> set (''Error: Command execution failed (''
                               @ show_nat (length failures) @ '' failures):'')"
    by (simp add: show_nat_plain)
  have entries: "\<forall>x\<in>set (map failure_line failures). CHR 0x0A \<notin> set x"
    using assms(2) failure_line_plain by fastforce
  have "split_lines (join newline (map failure_line failures)) = map failure_line failures"
    using assms(1) entries by (intro split_lines_join) simp_all
  with split_lines_first [OF head, of "join newline (map failure_line failures)"]
  show ?thesis
    by (simp add: command_error_message_def newline_def)
qed

lemma failure_lines:
  "map failure_line fails =
     map (\<lambda>f. ''- '' @ command f @ '' (exit code: ''
               @ template_exitCode (exitCode f) @ ''): ''
               @ template_message (message f)) fails"
  by (simp add: failure_line_def)

subsection \<open>The example world, evaluated\<close>

lemmas demo_defs =
  run_def main_def script_body_def runCommands_def runCommand_def runCommand_try_def
  runCommand_catch_def demo_ports_def demo_execa_def demo_failure_def demo_config_def
  emit_def emits_def Let_def command_failure_gate_def report_failure_def diff_gate_def
  failMessage_def failure_text_def new_Error_def TypeError_def show_bool_def show_nat.simps
  digit_def show_int_def normalizeOutput_def Array_join_def command_error_message_def
  failure_line_def clean_summary_def failed_summary_def default_fail_message_def

lemma demo_catchable: "catchable (fst (execa demo_ports c w))"
  by (simp add: demo_ports_def demo_execa_def demo_failure_def)

lemma demo_runCommand_false:
  "runCommand demo_ports ''false'' \<lparr>world = [], trace = []\<rparr> =
     (Inr \<lparr>command = ''false'', ok = False, stdout = [], stderr = ''failed'',
           exitCode = Some 1, signal = None, message = Some ''Command failed: false''\<rparr>,
      \<lparr>world = [], trace = [Execa ''false'']\<rparr>)"
  by (simp add: demo_defs)

lemma demo_runCommand_boom:
  "runCommand demo_ports ''boom'' \<lparr>world = [], trace = []\<rparr> =
     (Inr \<lparr>command = ''boom'', ok = False, stdout = [], stderr = [],
           exitCode = None, signal = None, message = Some ''TypeError: bad options''\<rparr>,
      \<lparr>world = [], trace = [Execa ''boom'']\<rparr>)"
  by (simp add: demo_defs)

lemma demo_runCommand_gen:
  "runCommand demo_ports ''gen'' \<lparr>world = [], trace = []\<rparr> =
     (Inr \<lparr>command = ''gen'', ok = True, stdout = ''a'' @ newline @ ''b'', stderr = [],
           exitCode = None, signal = None, message = None\<rparr>,
      \<lparr>world = [''out.txt''], trace = [Execa ''gen'']\<rparr>)"
  by (simp add: demo_defs)

lemma demo_runCommand_try_false:
  "fst (runCommand_try demo_ports ''false'' \<lparr>world = [], trace = []\<rparr>)
     = Inl (ExecaError (demo_failure ''false''))"
  by (simp add: runCommand_try_def demo_ports_def demo_execa_def Let_def)

lemma demo_runCommands_abort:
  "runCommands demo_ports [''false'', ''gen'', ''boom'']
       (emit (StartGroup ''Running commands'') \<lparr>world = [], trace = []\<rparr>) =
     (Inr [\<lparr>command = ''false'', ok = False, stdout = [], stderr = ''failed'',
            exitCode = Some 1, signal = None, message = Some ''Command failed: false''\<rparr>,
           \<lparr>command = ''gen'', ok = True, stdout = ''a'' @ newline @ ''b'', stderr = [],
            exitCode = None, signal = None, message = None\<rparr>,
           \<lparr>command = ''boom'', ok = False, stdout = [], stderr = [],
            exitCode = None, signal = None, message = Some ''TypeError: bad options''\<rparr>],
      \<lparr>world = [''out.txt''],
       trace = [StartGroup ''Running commands'', Execa ''false'', Execa ''gen'', Execa ''boom'']\<rparr>)"
  by (simp add: demo_defs)

lemma demo_runCommands_clean:
  "runCommands demo_ports [''false'', ''true'', ''exit 2'']
       (emit (StartGroup ''Running commands'') \<lparr>world = [], trace = []\<rparr>) =
     (Inr [\<lparr>command = ''false'', ok = False, stdout = [], stderr = ''failed'',
            exitCode = Some 1, signal = None, message = Some ''Command failed: false''\<rparr>,
           \<lparr>command = ''true'', ok = True, stdout = [], stderr = [],
            exitCode = None, signal = None, message = None\<rparr>,
           \<lparr>command = ''exit 2'', ok = False, stdout = [], stderr = ''failed'',
            exitCode = Some 2, signal = None, message = Some ''Command failed: exit 2''\<rparr>],
      \<lparr>world = [],
       trace = [StartGroup ''Running commands'', Execa ''false'', Execa ''true'', Execa ''exit 2'']\<rparr>)"
  by (simp add: demo_defs)

lemma demo_runCommands_gen:
  "runCommands demo_ports [''gen'']
       (emit (StartGroup ''Running commands'') \<lparr>world = [], trace = []\<rparr>) =
     (Inr [\<lparr>command = ''gen'', ok = True, stdout = ''a'' @ newline @ ''b'', stderr = [],
            exitCode = None, signal = None, message = None\<rparr>],
      \<lparr>world = [''out.txt''],
       trace = [StartGroup ''Running commands'', Execa ''gen'']\<rparr>)"
  by (simp add: demo_defs)

lemma demo_run_noisy:
  "run demo_ports (demo_config [''noisy''] [] True True) [] =
     (SetFailed (''Error: Command execution failed (1 failures):'' @ newline
                 @ ''- noisy (exit code: 1): Command failed: noisy'' @ newline
                 @ ''lint error''),
      \<lparr>world = [],
       trace = [StartGroup ''Running commands'', Execa ''noisy'', EndGroup,
                SetOutput ''command_failures'' ''1'', StartGroup ''Command failures'',
                Warning ''Command failed: noisy'', Warning ''Exit code: 1'',
                ErrorAnnotation ''lint error'', EndGroup]\<rparr>)"
  by (simp add: demo_defs)

lemma demo_run_no_summary:
  "run demo_ports_no_summary (demo_config [''true''] [] False True) [] =
     (SetFailed ''Error: no summary file'',
      \<lparr>world = [],
       trace = [StartGroup ''Running commands'', Execa ''true'', EndGroup,
                SetOutput ''command_failures'' ''0'', GitHasDiff (Inr False),
                SetOutput ''has_diff'' ''false'', Notice ''Working tree is clean'',
                SummaryWrite [addHeading ''Diff Sentinel'' None,
                              addRaw (''No uncommitted changes detected'' @ newline)]
                  (Inl (ErrorObj ''Error'' ''no summary file''))]\<rparr>)"
  by (simp add: demo_defs demo_ports_no_summary_def)

lemma demo_run_stale:
  "run demo_ports (demo_config [''gen''] ''stale'' False True) [] =
     (SetFailed ''Error: stale'',
      \<lparr>world = [''out.txt''],
       trace = [StartGroup ''Running commands'', Execa ''gen'', EndGroup,
        SetOutput ''command_failures'' ''0'', GitHasDiff (Inr True),
        SetOutput ''has_diff'' ''true'',
        GitGetChangedFiles (Inr [''out.txt'']),
        SetOutput ''changed_files'' ''out.txt'',
        SetOutput ''diff_count'' ''1'', StartGroup ''Changed files'',
        ConsoleLog ''- out.txt'', EndGroup, StartGroup ''Diff'',
        GitDiff [''out.txt''] (Inr ()), EndGroup,
        SummaryWrite
          [addHeading ''Diff Sentinel Failed'' (Some 1),
           addRaw (''stale'' @ newline),
           addHeading ''Changed files'' (Some 3),
           addList [''out.txt''],
           addHeading ''How to fix'' (Some 3),
           addCodeBlock ''gen'' ''bash'']
          (Inr ())]\<rparr>)"
  by (simp add: demo_defs)

lemma demo_run_default:
  "run demo_ports (demo_config [''gen''] [] False True) [] =
     (SetFailed ''Error: Generated or formatted files are out of date.'',
      \<lparr>world = [''out.txt''],
       trace = [StartGroup ''Running commands'', Execa ''gen'', EndGroup,
        SetOutput ''command_failures'' ''0'', GitHasDiff (Inr True),
        SetOutput ''has_diff'' ''true'',
        GitGetChangedFiles (Inr [''out.txt'']),
        SetOutput ''changed_files'' ''out.txt'',
        SetOutput ''diff_count'' ''1'', StartGroup ''Changed files'',
        ConsoleLog ''- out.txt'', EndGroup, StartGroup ''Diff'',
        GitDiff [''out.txt''] (Inr ()), EndGroup,
        SummaryWrite
          [addHeading ''Diff Sentinel Failed'' (Some 1),
           addRaw (''Generated or formatted files are out of date.'' @ newline),
           addHeading ''Changed files'' (Some 3),
           addList [''out.txt''],
           addHeading ''How to fix'' (Some 3),
           addCodeBlock ''gen'' ''bash'']
          (Inr ())]\<rparr>)"
  by (simp add: demo_defs)

subsection \<open>The command runner\<close>

text \<open>
  Claim C3, as stated, does not hold: when the executor rejects with a value that
  \<open>String\<close> cannot convert (a null-prototype object), \<open>String(error)\<close> raises
  inside the \<open>catch\<close> clause and \<open>runCommand\<close> rejects with that \<open>TypeError\<close>
  instead of returning a result.
\<close>

theorem runCommand_never_throws_counterexample:
  "fst (execa demo_ports_throwing ''gen'' [])
     = Rejected (NonError (Raises ''Cannot convert object to primitive value''))
   \<and> runCommand demo_ports_throwing ''gen'' \<lparr>world = [], trace = []\<rparr>
     = (Inl (ErrorObj ''TypeError'' ''Cannot convert object to primitive value''),
        \<lparr>world = [], trace = [Execa ''gen'']\<rparr>)"
  by (simp add: demo_defs demo_ports_throwing_def)

text \<open>
  Claim C3, amended. \<open>runCommand\<close> returns a result and raises nothing exactly when
  its \<open>catch\<close> clause does not raise: the executor resolved, or rejected with an
  \<open>ExecaError\<close> whose \<open>stdout\<close> and \<open>stderr\<close> normalize, with another \<open>Error\<close>,
  or with a value that \<open>String\<close> converts; otherwise it rejects with a \<open>TypeError\<close>.
  Where it returns, the result has \<open>ok = false\<close> whenever the executor rejected; when
  the thrown value is not an \<open>ExecaError\<close> the result carries only \<open>message\<close>, the
  text \<open>String(error)\<close>, with \<open>exitCode\<close> and \<open>signal\<close> null and \<open>stdout\<close> and
  \<open>stderr\<close> empty. When the executor resolved, \<open>ok\<close> is true unless normalizing
  an output raised inside the \<open>try\<close> block.
\<close>

theorem runCommand_returns_when_catchable:
  "(catchable (fst (execa p cmd (world s))) \<longrightarrow>
      (\<exists>r s'. runCommand p cmd s = (Inr r, s')
         \<and> command r = cmd
         \<and> (case fst (execa p cmd (world s)) of
              Resolved out err \<Rightarrow> ok r = (normalizes out \<and> normalizes err)
            | Rejected error \<Rightarrow>
                \<not> ok r
                \<and> (\<not> instanceof_ExecaError error \<longrightarrow>
                     (\<exists>text. String_thrown error = Inr text
                        \<and> r = \<lparr>command = cmd, ok = False, stdout = [], stderr = [],
                                exitCode = None, signal = None, message = Some text\<rparr>)))))
   \<and> (\<not> catchable (fst (execa p cmd (world s))) \<longrightarrow>
        (\<exists>m s'. runCommand p cmd s = (Inl (ErrorObj ''TypeError'' m), s')))"
proof (intro conjI impI)
  assume c: "catchable (fst (execa p cmd (world s)))"
  obtain r where r: "fst (runCommand p cmd s) = Inr r" "command r = cmd"
    using runCommand_catchable [OF c] by blast
  define s' where "s' = snd (runCommand p cmd s)"
  have rc: "runCommand p cmd s = (Inr r, s')"
    using r(1) by (simp add: s'_def prod_eq_iff)
  have "case fst (execa p cmd (world s)) of
              Resolved out err \<Rightarrow> ok r = (normalizes out \<and> normalizes err)
            | Rejected error \<Rightarrow>
                \<not> ok r
                \<and> (\<not> instanceof_ExecaError error \<longrightarrow>
                     (\<exists>text. String_thrown error = Inr text
                        \<and> r = \<lparr>command = cmd, ok = False, stdout = [], stderr = [],
                                exitCode = None, signal = None, message = Some text\<rparr>))"
  proof (cases "fst (execa p cmd (world s))")
    case (Resolved out err)
    obtain w' where ex: "execa p cmd (world s) = (Resolved out err, w')"
      using Resolved by (cases "execa p cmd (world s)") simp
    have "ok r = (normalizes out \<and> normalizes err)"
    proof (cases "normalizeOutput (Buffer_toString p) out")
      case (Inl e)
      then have "\<not> normalizes out" and "\<exists>m. e = TypeError m"
        using normalizeOutput_Inl by blast+
      with Inl ex rc show ?thesis
        by (auto simp add: runCommand_def runCommand_try_def runCommand_catch_def Let_def
              TypeError_def)
    next
      case so: (Inr so)
      then have n1: "normalizes out"
        using normalizeOutput_raises [of out "Buffer_toString p"] by auto
      show ?thesis
      proof (cases "normalizeOutput (Buffer_toString p) err")
        case (Inl e)
        then have "\<not> normalizes err" and "\<exists>m. e = TypeError m"
          using normalizeOutput_Inl by blast+
        with Inl so ex rc show ?thesis
          by (auto simp add: runCommand_def runCommand_try_def runCommand_catch_def Let_def
                TypeError_def)
      next
        case (Inr se)
        then have "normalizes err"
          using normalizeOutput_raises [of err "Buffer_toString p"] by auto
        with n1 Inr so ex rc show ?thesis
          by (auto simp add: runCommand_def runCommand_try_def Let_def)
      qed
    qed
    with Resolved show ?thesis by simp
  next
    case (Rejected error)
    obtain w' where ex: "execa p cmd (world s) = (Rejected error, w')"
      using Rejected by (cases "execa p cmd (world s)") simp
    from ex rc have "\<not> ok r
                \<and> (\<not> instanceof_ExecaError error \<longrightarrow>
                     (\<exists>text. String_thrown error = Inr text
                        \<and> r = \<lparr>command = cmd, ok = False, stdout = [], stderr = [],
                                exitCode = None, signal = None, message = Some text\<rparr>))"
      by (auto simp add: runCommand_def runCommand_try_def runCommand_catch_def Let_def
            split: thrown.splits sum.splits)
    with Rejected show ?thesis by simp
  qed
  with rc r(2) show "\<exists>r s'. runCommand p cmd s = (Inr r, s')
         \<and> command r = cmd
         \<and> (case fst (execa p cmd (world s)) of
              Resolved out err \<Rightarrow> ok r = (normalizes out \<and> normalizes err)
            | Rejected error \<Rightarrow>
                \<not> ok r
                \<and> (\<not> instanceof_ExecaError error \<longrightarrow>
                     (\<exists>text. String_thrown error = Inr text
                        \<and> r = \<lparr>command = cmd, ok = False, stdout = [], stderr = [],
                                exitCode = None, signal = None, message = Some text\<rparr>)))"
    by blast
next
  assume "\<not> catchable (fst (execa p cmd (world s)))"
  then obtain m where "fst (runCommand p cmd s) = Inl (TypeError m)"
    using runCommand_not_catchable by blast
  then have "runCommand p cmd s = (Inl (ErrorObj ''TypeError'' m), snd (runCommand p cmd s))"
    by (simp add: prod_eq_iff TypeError_def)
  then show "\<exists>m s'. runCommand p cmd s = (Inl (ErrorObj ''TypeError'' m), s')"
    by blast
qed

text \<open>
  In the example world \<open>boom\<close> makes the executor raise a \<open>TypeError\<close>, which is
  reported; the executor that rejects with a null-prototype object is not.
\<close>

theorem runCommand_returns_when_catchable_witness:
  "catchable (fst (execa demo_ports ''boom'' []))
   \<and> (\<exists>s'. runCommand demo_ports ''boom'' \<lparr>world = [], trace = []\<rparr> =
     (Inr \<lparr>command = ''boom'', ok = False, stdout = [], stderr = [],
           exitCode = None, signal = None, message = Some ''TypeError: bad options''\<rparr>, s'))
   \<and> \<not> catchable (fst (execa demo_ports_throwing ''gen'' []))
   \<and> (\<exists>s'. runCommand demo_ports_throwing ''gen'' \<lparr>world = [], trace = []\<rparr> =
     (Inl (ErrorObj ''TypeError'' ''Cannot convert object to primitive value''), s'))"
proof -
  have c: "catchable (fst (execa demo_ports ''boom'' []))"
    by (rule demo_catchable)
  have n: "\<not> catchable (fst (execa demo_ports_throwing ''gen'' []))"
    by (simp add: demo_ports_throwing_def demo_ports_def)
  from runCommand_returns_when_catchable [of demo_ports "''boom''" "\<lparr>world = [], trace = []\<rparr>"] c
  have "\<exists>s'. runCommand demo_ports ''boom'' \<lparr>world = [], trace = []\<rparr> =
     (Inr \<lparr>command = ''boom'', ok = False, stdout = [], stderr = [],
           exitCode = None, signal = None, message = Some ''TypeError: bad options''\<rparr>, s')"
    by (simp add: demo_runCommand_boom)
  moreover
  from runCommand_returns_when_catchable
         [of demo_ports_throwing "''gen''" "\<lparr>world = [], trace = []\<rparr>"] n
  have "\<exists>s'. runCommand demo_ports_throwing ''gen'' \<lparr>world = [], trace = []\<rparr> =
     (Inl (ErrorObj ''TypeError'' ''Cannot convert object to primitive value''), s')"
    by (simp add: demo_defs demo_ports_throwing_def)
  ultimately show ?thesis
    using c n by blast
qed

text \<open>
  Claim C2. A result of \<open>runCommand\<close> with \<open>ok = true\<close> has no \<open>exitCode\<close>, no
  \<open>signal\<close> and no \<open>message\<close>; a result with \<open>ok = false\<close> has at least one of
  the three.
\<close>

theorem runCommand_result_invariant:
  assumes "runCommand p cmd s = (Inr r, s')"
  shows "(ok r \<longrightarrow> exitCode r = None \<and> signal r = None \<and> message r = None)
       \<and> (\<not> ok r \<longrightarrow> exitCode r \<noteq> None \<or> signal r \<noteq> None \<or> message r \<noteq> None)"
  using assms
  by (auto simp add: runCommand_def runCommand_try_def runCommand_catch_def Let_def
        split: prod.splits exec_outcome.splits thrown.splits sum.splits)

text \<open>In the example world: the failing \<open>false\<close> and the succeeding \<open>gen\<close>.\<close>

theorem runCommand_result_invariant_witness:
  "runCommand demo_ports ''false'' \<lparr>world = [], trace = []\<rparr> =
     (Inr \<lparr>command = ''false'', ok = False, stdout = [], stderr = ''failed'',
           exitCode = Some 1, signal = None, message = Some ''Command failed: false''\<rparr>,
      \<lparr>world = [], trace = [Execa ''false'']\<rparr>)
   \<and> runCommand demo_ports ''gen'' \<lparr>world = [], trace = []\<rparr> =
     (Inr \<lparr>command = ''gen'', ok = True, stdout = ''a'' @ newline @ ''b'', stderr = [],
           exitCode = None, signal = None, message = None\<rparr>,
      \<lparr>world = [''out.txt''], trace = [Execa ''gen'']\<rparr>)"
  using runCommand_result_invariant [OF demo_runCommand_false]
    runCommand_result_invariant [OF demo_runCommand_gen]
  by (simp add: demo_runCommand_false demo_runCommand_gen)

text \<open>
  Claim C10. A result of \<open>runCommand\<close> with \<open>ok = false\<close> always has a
  \<open>message\<close>. It comes from the \<open>catch\<close> clause, which received what the executor
  rejected with (or the \<open>TypeError\<close> that normalizing an output raised in the \<open>try\<close>
  block), and the message is the \<open>ExecaError\<close>'s own message or, for any other thrown
  value, the text \<open>String(error)\<close>.
\<close>

theorem runCommand_failure_has_message:
  assumes "runCommand p cmd s = (Inr r, s')" and "\<not> ok r"
  shows "\<exists>error text. fst (runCommand_try p cmd s) = Inl error
            \<and> (fst (execa p cmd (world s)) = Rejected error
               \<or> (\<exists>out err m. fst (execa p cmd (world s)) = Resolved out err
                                \<and> error = ErrorObj ''TypeError'' m))
            \<and> message r = Some text
            \<and> (if instanceof_ExecaError error then text = error_message error
                else String_thrown error = Inr text)"
proof -
  obtain error msg where e: "fst (runCommand_try p cmd s) = Inl error"
    "message r = Some msg"
    "if instanceof_ExecaError error then msg = error_message error
     else String_thrown error = Inr msg"
    using assms
    by (auto simp add: runCommand_def runCommand_catch_def
          split: prod.splits thrown.splits sum.splits dest: runCommand_try_ok)
  from runCommand_try_Inl [OF e(1)] e show ?thesis
    by blast
qed

text \<open>In the example world, for the failing command \<open>false\<close>.\<close>

theorem runCommand_failure_has_message_witness:
  "runCommand demo_ports ''false'' \<lparr>world = [], trace = []\<rparr> =
     (Inr \<lparr>command = ''false'', ok = False, stdout = [], stderr = ''failed'',
           exitCode = Some 1, signal = None, message = Some ''Command failed: false''\<rparr>,
      \<lparr>world = [], trace = [Execa ''false'']\<rparr>)
   \<and> fst (runCommand_try demo_ports ''false'' \<lparr>world = [], trace = []\<rparr>)
       = Inl (ExecaError (demo_failure ''false''))
   \<and> error_message (ExecaError (demo_failure ''false'')) = ''Command failed: false''"
proof -
  have "\<exists>error text. fst (runCommand_try demo_ports ''false'' \<lparr>world = [], trace = []\<rparr>) = Inl error
            \<and> Some ''Command failed: false'' = Some text
            \<and> (if instanceof_ExecaError error then text = error_message error
                else String_thrown error = Inr text)"
    using runCommand_failure_has_message [OF demo_runCommand_false] by auto
  then have "error_message (ExecaError (demo_failure ''false'')) = ''Command failed: false''"
    by (auto simp add: demo_runCommand_try_false)
  then show ?thesis
    using demo_runCommand_false demo_runCommand_try_false by blast
qed

subsection \<open>The command pipeline\<close>



subsection \<open>Output normalization\<close>

text \<open>
  Claim C7, as stated, does not hold: on an array holding a Symbol,
  \<open>value.join('\n')\<close> raises a \<open>TypeError\<close> and \<open>normalizeOutput\<close> returns
  nothing.
\<close>

theorem normalizeOutput_total_counterexample:
  "normalizeOutput ascii_decode (JArray [Raises ''Cannot convert a Symbol value to a string''])
     = Inl (ErrorObj ''TypeError'' ''Cannot convert a Symbol value to a string'')"
  by (simp add: normalizeOutput_def Array_join_def TypeError_def)

text \<open>
  Claim C7, amended. \<open>normalizeOutput\<close> returns a string on every value except an
  array holding an element that \<open>join\<close> cannot convert, on which it raises the
  \<open>TypeError\<close> of that conversion: a string is returned unchanged, an array of
  convertible elements gives their texts joined by line feeds, a \<open>Uint8Array\<close> gives
  the decoded text of its bytes, and every other value, \<open>undefined\<close> included, gives
  the empty string.
\<close>

theorem normalizeOutput_cases:
  "(case v of
      JString s \<Rightarrow> normalizeOutput decode v = Inr s
    | JArray cs \<Rightarrow>
        (if list_all converts cs
         then normalizeOutput decode v = Inr (join newline (map text_of cs))
         else \<exists>m. Raises m \<in> set cs \<and> normalizeOutput decode v = Inl (ErrorObj ''TypeError'' m))
    | JUint8Array bs \<Rightarrow> normalizeOutput decode v = Inr (decode bs)
    | JUndefined \<Rightarrow> normalizeOutput decode v = Inr []
    | JOther \<Rightarrow> normalizeOutput decode v = Inr [])"
proof (cases v)
  case (JArray cs)
  show ?thesis
  proof (cases "list_all converts cs")
    case True
    with JArray show ?thesis
      by (simp add: normalizeOutput_def Array_join_def convert_all_converts)
  next
    case False
    then obtain m where "Raises m \<in> set cs" "convert_all cs = Inl (TypeError m)"
      using convert_all_raises by blast
    with False JArray show ?thesis
      by (auto simp add: normalizeOutput_def Array_join_def TypeError_def)
  qed
qed (simp_all add: normalizeOutput_def)

text \<open>
  The array of \<open>a\<close> and \<open>b\<close> becomes \<open>a\<close>, a line feed, \<open>b\<close>; the array of
  \<open>a\<close> and a Symbol raises.
\<close>

theorem normalizeOutput_cases_witness:
  "normalizeOutput ascii_decode (JArray [Converts ''a'', Converts ''b'']) = Inr (''a'' @ newline @ ''b'')
   \<and> normalizeOutput ascii_decode (JString ''a'') = Inr ''a''
   \<and> normalizeOutput ascii_decode JUndefined = Inr []
   \<and> normalizeOutput ascii_decode (JArray [Converts ''a'', Raises ''Cannot convert a Symbol value to a string''])
       = Inl (ErrorObj ''TypeError'' ''Cannot convert a Symbol value to a string'')"
  using normalizeOutput_cases [of ascii_decode "JArray [Converts ''a'', Converts ''b'']"]
    normalizeOutput_cases [of ascii_decode "JString ''a''"]
    normalizeOutput_cases [of ascii_decode JUndefined]
    normalizeOutput_cases [of ascii_decode "JArray [Converts ''a'', Raises ''Cannot convert a Symbol value to a string'']"]
  by simp

text \<open>
  Claim C8. Normalizing a normalized output changes nothing: where \<open>normalizeOutput\<close>
  returns a string, normalizing that string returns it again, and where it raises, the
  composition raises the same error.
\<close>

theorem normalizeOutput_idempotent:
  "(case normalizeOutput decode v of
      Inl e \<Rightarrow> Inl e
    | Inr s \<Rightarrow> normalizeOutput decode (JString s)) = normalizeOutput decode v"
  by (simp add: normalizeOutput_def split: sum.splits)

subsection \<open>The command-failure gate\<close>

text \<open>
  Claim C5, as stated, does not hold: the entries are not one per line. execa appends
  what a failed command printed to the error's message, the gate copies that message
  into the entry, and the one failed command \<open>noisy\<close> takes two lines of the failure
  text.
\<close>

theorem command_error_one_per_line_counterexample:
  "failOnCommandError (demo_config [''noisy''] [] True True)
   \<and> fst (runCommands demo_ports [''noisy'']
            (emit (StartGroup ''Running commands'') \<lparr>world = [], trace = []\<rparr>))
       = Inr [\<lparr>command = ''noisy'', ok = False, stdout = [], stderr = ''lint error'',
               exitCode = Some 1, signal = None,
               message = Some (''Command failed: noisy'' @ newline @ ''lint error'')\<rparr>]
   \<and> fst (run demo_ports (demo_config [''noisy''] [] True True) []) =
       SetFailed (''Error: Command execution failed (1 failures):'' @ newline
                  @ ''- noisy (exit code: 1): Command failed: noisy'' @ newline
                  @ ''lint error'')
   \<and> split_lines (''Error: Command execution failed (1 failures):'' @ newline
                  @ ''- noisy (exit code: 1): Command failed: noisy'' @ newline
                  @ ''lint error'')
       = [''Error: Command execution failed (1 failures):'',
          ''- noisy (exit code: 1): Command failed: noisy'',
          ''lint error'']"
  by (simp add: demo_run_noisy) (simp add: demo_defs newline_def)

text \<open>
  Claim C5, amended. When \<open>failOnCommandError\<close> is set and some command's result has
  \<open>ok = false\<close>, the run ends in \<open>core.setFailed\<close> before the diff gate: git is not
  asked for a diff and \<open>has_diff\<close> is not set. The failure text is the heading
  \<open>Error: Command execution failed (n failures):\<close> followed by one entry per failed
  command, in order, separated by line feeds, each entry made of the command text, the
  exit code (\<open>null\<close> when there is none) and the failure message. The entries are
  one per line when no command text and no failure message holds a line feed.
\<close>

theorem command_error_aborts_before_diff_gate:
  assumes "failOnCommandError cfg"
    and "runCommands p (commands cfg)
           (emit (StartGroup ''Running commands'') \<lparr>world = w, trace = []\<rparr>) = (Inr results, s1)"
    and "filter (\<lambda>r. \<not> ok r) results \<noteq> []"
  shows "fst (run p cfg w) =
           SetFailed (''Error: Command execution failed (''
                      @ show_nat (length (filter (\<lambda>r. \<not> ok r) results)) @ '' failures):''
                      @ newline
                      @ join newline
                          (map (\<lambda>f. ''- '' @ command f @ '' (exit code: ''
                                     @ template_exitCode (exitCode f) @ ''): ''
                                     @ template_message (message f))
                               (filter (\<lambda>r. \<not> ok r) results)))
       \<and> trace (snd (run p cfg w)) =
           StartGroup ''Running commands'' # map Execa (commands cfg)
           @ EndGroup # command_failure_events results
       \<and> (\<forall>a. GitHasDiff a \<notin> set (trace (snd (run p cfg w))))
       \<and> (\<forall>v. SetOutput ''has_diff'' v \<notin> set (trace (snd (run p cfg w))))
       \<and> ((\<forall>f\<in>set (filter (\<lambda>r. \<not> ok r) results).
              CHR 0x0A \<notin> set (command f) \<and> CHR 0x0A \<notin> set (template_message (message f)))
           \<longrightarrow> (\<exists>text. fst (run p cfg w) = SetFailed text
                  \<and> split_lines text =
                      (''Error: Command execution failed (''
                       @ show_nat (length (filter (\<lambda>r. \<not> ok r) results)) @ '' failures):'')
                      # map (\<lambda>f. ''- '' @ command f @ '' (exit code: ''
                                  @ template_exitCode (exitCode f) @ ''): ''
                                  @ template_message (message f))
                            (filter (\<lambda>r. \<not> ok r) results)))"
proof -
  define failures where "failures = filter (\<lambda>r. \<not> ok r) results"
  define sg where "sg = emits (command_failure_events results) (emit EndGroup s1)"
  have tr1: "trace s1 = StartGroup ''Running commands'' # map Execa (commands cfg)"
    using script_body_returned(1) [OF assms(2)] by simp
  have body: "script_body p cfg \<lparr>world = w, trace = []\<rparr> =
                (Inl (new_Error (command_error_message failures)), sg)"
    using script_body_returned(2) [OF assms(2)] assms(1,3)
    by (simp add: failures_def sg_def)
  have run_eq: "run p cfg w = (SetFailed (''Error: '' @ command_error_message failures), sg)"
    by (simp add: run_main body failure_text_new_Error)
  have tr: "trace (snd (run p cfg w)) =
           StartGroup ''Running commands'' # map Execa (commands cfg)
           @ EndGroup # command_failure_events results"
    by (simp add: run_eq sg_def emits_def emit_def tr1)
  have before: "\<forall>e\<in>set (trace (snd (run p cfg w))). before_diff_gate e"
    unfolding tr using before_command_failure_events by auto
  have no_query: "GitHasDiff a \<notin> set (trace (snd (run p cfg w)))" for a
  proof
    assume "GitHasDiff a \<in> set (trace (snd (run p cfg w)))"
    with before have "before_diff_gate (GitHasDiff a)"
      by (rule bspec)
    then show False by simp
  qed
  have no_output: "SetOutput ''has_diff'' v \<notin> set (trace (snd (run p cfg w)))" for v
  proof
    assume "SetOutput ''has_diff'' v \<in> set (trace (snd (run p cfg w)))"
    with before have "before_diff_gate (SetOutput ''has_diff'' v)"
      by (rule bspec)
    then show False by simp
  qed
  have msg: "fst (run p cfg w) =
           SetFailed (''Error: Command execution failed (''
                      @ show_nat (length failures) @ '' failures):''
                      @ newline
                      @ join newline
                          (map (\<lambda>f. ''- '' @ command f @ '' (exit code: ''
                                     @ template_exitCode (exitCode f) @ ''): ''
                                     @ template_message (message f))
                               failures))"
    by (simp add: run_eq command_error_message_def failure_lines)
  have per_line: "\<exists>text. fst (run p cfg w) = SetFailed text
                  \<and> split_lines text =
                      (''Error: Command execution failed (''
                       @ show_nat (length failures) @ '' failures):'')
                      # map (\<lambda>f. ''- '' @ command f @ '' (exit code: ''
                                  @ template_exitCode (exitCode f) @ ''): ''
                                  @ template_message (message f))
                            failures"
    if plain: "\<forall>f\<in>set failures.
              CHR 0x0A \<notin> set (command f) \<and> CHR 0x0A \<notin> set (template_message (message f))"
  proof -
    have "failures \<noteq> []"
      using assms(3) by (simp add: failures_def)
    then have "split_lines (''Error: '' @ command_error_message failures) =
           (''Error: Command execution failed ('' @ show_nat (length failures) @ '' failures):'')
           # map failure_line failures"
      using plain by (rule command_error_message_lines)
    then show ?thesis
      by (simp add: run_eq failure_lines)
  qed
  show ?thesis
    using msg tr no_query no_output per_line unfolding failures_def by blast
qed

text \<open>
  In the example world, with the commands \<open>false\<close>, \<open>gen\<close> and \<open>boom\<close>: two
  entries, the second with the exit code \<open>null\<close>, on a line each.
\<close>

theorem command_error_aborts_before_diff_gate_witness:
  "failOnCommandError (demo_config [''false'', ''gen'', ''boom''] ''stale'' True True)
   \<and> fst (run demo_ports (demo_config [''false'', ''gen'', ''boom''] ''stale'' True True) []) =
       SetFailed (''Error: Command execution failed (2 failures):'' @ newline
                  @ ''- false (exit code: 1): Command failed: false'' @ newline
                  @ ''- boom (exit code: null): TypeError: bad options'')
   \<and> GitHasDiff (Inr True)
       \<notin> set (trace (snd (run demo_ports
                              (demo_config [''false'', ''gen'', ''boom''] ''stale'' True True) [])))
   \<and> (\<exists>text. fst (run demo_ports
                       (demo_config [''false'', ''gen'', ''boom''] ''stale'' True True) [])
                 = SetFailed text
          \<and> split_lines text =
               [''Error: Command execution failed (2 failures):'',
                ''- false (exit code: 1): Command failed: false'',
                ''- boom (exit code: null): TypeError: bad options''])"
proof -
  have h1: "failOnCommandError (demo_config [''false'', ''gen'', ''boom''] ''stale'' True True)"
    by (simp add: demo_config_def)
  have h2: "runCommands demo_ports
              (commands (demo_config [''false'', ''gen'', ''boom''] ''stale'' True True))
              (emit (StartGroup ''Running commands'') \<lparr>world = [], trace = []\<rparr>) =
     (Inr [\<lparr>command = ''false'', ok = False, stdout = [], stderr = ''failed'',
            exitCode = Some 1, signal = None, message = Some ''Command failed: false''\<rparr>,
           \<lparr>command = ''gen'', ok = True, stdout = ''a'' @ newline @ ''b'', stderr = [],
            exitCode = None, signal = None, message = None\<rparr>,
           \<lparr>command = ''boom'', ok = False, stdout = [], stderr = [],
            exitCode = None, signal = None, message = Some ''TypeError: bad options''\<rparr>],
      \<lparr>world = [''out.txt''],
       trace = [StartGroup ''Running commands'', Execa ''false'', Execa ''gen'', Execa ''boom'']\<rparr>)"
    using demo_runCommands_abort by (simp add: demo_config_def)
  have h3: "filter (\<lambda>r. \<not> ok r)
               [\<lparr>command = ''false'', ok = False, stdout = [], stderr = ''failed'',
                 exitCode = Some 1, signal = None, message = Some ''Command failed: false''\<rparr>,
                \<lparr>command = ''gen'', ok = True, stdout = ''a'' @ newline @ ''b'', stderr = [],
                 exitCode = None, signal = None, message = None\<rparr>,
                \<lparr>command = ''boom'', ok = False, stdout = [], stderr = [],
                 exitCode = None, signal = None, message = Some ''TypeError: bad options''\<rparr>]
             \<noteq> []"
    by simp
  note fact = command_error_aborts_before_diff_gate [OF h1 h2 h3]
  from fact have msg:
    "fst (run demo_ports (demo_config [''false'', ''gen'', ''boom''] ''stale'' True True) []) =
       SetFailed (''Error: Command execution failed (2 failures):'' @ newline
                  @ ''- false (exit code: 1): Command failed: false'' @ newline
                  @ ''- boom (exit code: null): TypeError: bad options'')"
    by (simp add: show_nat.simps digit_def show_int_def)
  from fact have nq: "GitHasDiff (Inr True)
       \<notin> set (trace (snd (run demo_ports
                              (demo_config [''false'', ''gen'', ''boom''] ''stale'' True True) [])))"
    by blast
  have plain: "\<forall>f\<in>set (filter (\<lambda>r. \<not> ok r)
               [\<lparr>command = ''false'', ok = False, stdout = [], stderr = ''failed'',
                 exitCode = Some 1, signal = None, message = Some ''Command failed: false''\<rparr>,
                \<lparr>command = ''gen'', ok = True, stdout = ''a'' @ newline @ ''b'', stderr = [],
                 exitCode = None, signal = None, message = None\<rparr>,
                \<lparr>command = ''boom'', ok = False, stdout = [], stderr = [],
                 exitCode = None, signal = None, message = Some ''TypeError: bad options''\<rparr>]).
              CHR 0x0A \<notin> set (command f) \<and> CHR 0x0A \<notin> set (template_message (message f))"
    by simp
  with fact obtain body where
    t1: "fst (run demo_ports (demo_config [''false'', ''gen'', ''boom''] ''stale'' True True) [])
           = SetFailed body"
    and t2: "split_lines body =
               (''Error: Command execution failed (''
                @ show_nat (length (filter (\<lambda>r. \<not> ok r)
               [\<lparr>command = ''false'', ok = False, stdout = [], stderr = ''failed'',
                 exitCode = Some 1, signal = None, message = Some ''Command failed: false''\<rparr>,
                \<lparr>command = ''gen'', ok = True, stdout = ''a'' @ newline @ ''b'', stderr = [],
                 exitCode = None, signal = None, message = None\<rparr>,
                \<lparr>command = ''boom'', ok = False, stdout = [], stderr = [],
                 exitCode = None, signal = None, message = Some ''TypeError: bad options''\<rparr>]))
                @ '' failures):'')
               # map (\<lambda>f. ''- '' @ command f @ '' (exit code: ''
                           @ template_exitCode (exitCode f) @ ''): ''
                           @ template_message (message f))
                     (filter (\<lambda>r. \<not> ok r)
               [\<lparr>command = ''false'', ok = False, stdout = [], stderr = ''failed'',
                 exitCode = Some 1, signal = None, message = Some ''Command failed: false''\<rparr>,
                \<lparr>command = ''gen'', ok = True, stdout = ''a'' @ newline @ ''b'', stderr = [],
                 exitCode = None, signal = None, message = None\<rparr>,
                \<lparr>command = ''boom'', ok = False, stdout = [], stderr = [],
                 exitCode = None, signal = None, message = Some ''TypeError: bad options''\<rparr>])"
    by blast
  from t2 have "split_lines body =
               [''Error: Command execution failed (2 failures):'',
                ''- false (exit code: 1): Command failed: false'',
                ''- boom (exit code: null): TypeError: bad options'']"
    by (simp add: show_nat.simps digit_def show_int_def)
  with t1 have "\<exists>text. fst (run demo_ports
                       (demo_config [''false'', ''gen'', ''boom''] ''stale'' True True) [])
                 = SetFailed text
          \<and> split_lines text =
               [''Error: Command execution failed (2 failures):'',
                ''- false (exit code: 1): Command failed: false'',
                ''- boom (exit code: null): TypeError: bad options'']"
    by blast
  with h1 msg nq show ?thesis
    by blast
qed

subsection \<open>The diff gate\<close>

text \<open>
  Claim C6, as stated, does not hold: when git reports no changes and the job summary
  cannot be written, the awaited \<open>write()\<close> rejects before \<open>process.exit(0)\<close> is
  reached, and the run ends in \<open>core.setFailed\<close>.
\<close>

theorem clean_tree_exit_counterexample:
  "git_hasDiff demo_ports_no_summary [] = Inr False
   \<and> GitHasDiff (Inr False)
       \<in> set (trace (snd (run demo_ports_no_summary (demo_config [''true''] [] False True) [])))
   \<and> fst (run demo_ports_no_summary (demo_config [''true''] [] False True) [])
       = SetFailed ''Error: no summary file''
   \<and> fst (run demo_ports_no_summary (demo_config [''true''] [] False True) []) \<noteq> ProcessExit 0"
  by (simp add: demo_run_no_summary) (simp add: demo_ports_no_summary_def demo_ports_def)

text \<open>
  Claim C6, amended. When the run reaches the diff gate (the commands returned their
  results and the command-failure gate did not abort) and git reports no uncommitted
  changes, the last things the run does are to set \<open>has_diff\<close> to \<open>false\<close>, emit
  the notice and write the short summary (a heading \<open>Diff Sentinel\<close> and the line
  \<open>No uncommitted changes detected\<close>); when that write returns, the run ends with
  \<open>process.exit(0)\<close>; and whether it returns or not, \<open>changed_files\<close> and
  \<open>diff_count\<close> are never set.
\<close>

theorem clean_tree_exits_early:
  assumes "runCommands p (commands cfg)
             (emit (StartGroup ''Running commands'') \<lparr>world = w, trace = []\<rparr>) = (Inr results, s1)"
    and "\<not> (failOnCommandError cfg \<and> filter (\<lambda>r. \<not> ok r) results \<noteq> [])"
    and "git_hasDiff p (world s1) = Inr False"
  shows "(summary_write p [addHeading ''Diff Sentinel'' None,
                           addRaw (''No uncommitted changes detected'' @ newline)] (world s1)
            = Inr ()
          \<longrightarrow> fst (run p cfg w) = ProcessExit 0)
       \<and> trace (snd (run p cfg w)) =
           StartGroup ''Running commands'' # map Execa (commands cfg)
           @ EndGroup # command_failure_events results
           @ [GitHasDiff (Inr False),
              SetOutput ''has_diff'' ''false'',
              Notice ''Working tree is clean'',
              SummaryWrite [addHeading ''Diff Sentinel'' None,
                            addRaw (''No uncommitted changes detected'' @ newline)]
                (summary_write p [addHeading ''Diff Sentinel'' None,
                                  addRaw (''No uncommitted changes detected'' @ newline)]
                   (world s1))]
       \<and> (\<forall>v. SetOutput ''changed_files'' v \<notin> set (trace (snd (run p cfg w)))
              \<and> SetOutput ''diff_count'' v \<notin> set (trace (snd (run p cfg w))))"
proof -
  define sg where "sg = emits (command_failure_events results) (emit EndGroup s1)"
  define written where
    "written = summary_write p [addHeading ''Diff Sentinel'' None,
                                addRaw (''No uncommitted changes detected'' @ newline)] (world s1)"
  have tr1: "trace s1 = StartGroup ''Running commands'' # map Execa (commands cfg)"
    using script_body_returned(1) [OF assms(1)] by simp
  have wg: "world sg = world s1"
    by (simp add: sg_def emits_def emit_def)
  have trg: "trace sg = StartGroup ''Running commands'' # map Execa (commands cfg)
                         @ EndGroup # command_failure_events results"
    by (simp add: sg_def emits_def emit_def tr1)
  have body: "script_body p cfg \<lparr>world = w, trace = []\<rparr> = diff_gate p cfg sg"
    using script_body_returned(2) [OF assms(1)] assms(2) by (auto simp add: sg_def)
  have gate: "diff_gate p cfg sg =
                (case written of Inl e \<Rightarrow> Inl e | Inr u \<Rightarrow> Inr (ProcessExit 0),
                 sg\<lparr>trace := trace sg @ [GitHasDiff (Inr False),
                                         SetOutput ''has_diff'' ''false'',
                                         Notice ''Working tree is clean'',
                                         SummaryWrite [addHeading ''Diff Sentinel'' None,
                                           addRaw (''No uncommitted changes detected'' @ newline)]
                                           written]\<rparr>)"
    using assms(3)
    by (simp add: diff_gate_def wg emit_def Let_def show_bool_def clean_summary_def written_def
          split: sum.splits)
  have exit0: "written = Inr () \<longrightarrow> fst (run p cfg w) = ProcessExit 0"
    by (simp add: run_main body gate)
  have tr: "trace (snd (run p cfg w)) =
           StartGroup ''Running commands'' # map Execa (commands cfg)
           @ EndGroup # command_failure_events results
           @ [GitHasDiff (Inr False),
              SetOutput ''has_diff'' ''false'',
              Notice ''Working tree is clean'',
              SummaryWrite [addHeading ''Diff Sentinel'' None,
                            addRaw (''No uncommitted changes detected'' @ newline)] written]"
    by (simp add: run_trace body gate trg)
  have before: "\<forall>e\<in>set (trace sg). before_diff_gate e"
    unfolding trg using before_command_failure_events by auto
  have no_files: "SetOutput ''changed_files'' v \<notin> set (trace sg)" for v
  proof
    assume "SetOutput ''changed_files'' v \<in> set (trace sg)"
    with before have "before_diff_gate (SetOutput ''changed_files'' v)"
      by (rule bspec)
    then show False by simp
  qed
  have no_count: "SetOutput ''diff_count'' v \<notin> set (trace sg)" for v
  proof
    assume "SetOutput ''diff_count'' v \<in> set (trace sg)"
    with before have "before_diff_gate (SetOutput ''diff_count'' v)"
      by (rule bspec)
    then show False by simp
  qed
  have none: "\<forall>v. SetOutput ''changed_files'' v \<notin> set (trace (snd (run p cfg w)))
              \<and> SetOutput ''diff_count'' v \<notin> set (trace (snd (run p cfg w)))"
    using no_files no_count by (simp add: run_trace body gate)
  show ?thesis
    using exit0 tr none unfolding written_def by blast
qed

text \<open>In the example world no command touches a file unless \<open>gen\<close> runs.\<close>

theorem clean_tree_exits_early_witness:
  "\<not> failOnCommandError (demo_config [''false'', ''true'', ''exit 2''] [] False True)
   \<and> git_hasDiff demo_ports [] = Inr False
   \<and> summary_write demo_ports [addHeading ''Diff Sentinel'' None,
                           addRaw (''No uncommitted changes detected'' @ newline)] [] = Inr ()
   \<and> fst (run demo_ports (demo_config [''false'', ''true'', ''exit 2''] [] False True) []) = ProcessExit 0
   \<and> SetOutput ''changed_files'' ''out.txt''
       \<notin> set (trace (snd (run demo_ports (demo_config [''false'', ''true'', ''exit 2''] [] False True) [])))"
proof -
  let ?cfg = "demo_config [''false'', ''true'', ''exit 2''] [] False True"
  let ?s1 = "\<lparr>world = ([] :: string list),
       trace = [StartGroup ''Running commands'', Execa ''false'', Execa ''true'', Execa ''exit 2'']\<rparr>"
  have h1: "runCommands demo_ports (commands ?cfg)
             (emit (StartGroup ''Running commands'') \<lparr>world = [], trace = []\<rparr>) =
     (Inr [\<lparr>command = ''false'', ok = False, stdout = [], stderr = ''failed'',
            exitCode = Some 1, signal = None, message = Some ''Command failed: false''\<rparr>,
           \<lparr>command = ''true'', ok = True, stdout = [], stderr = [],
            exitCode = None, signal = None, message = None\<rparr>,
           \<lparr>command = ''exit 2'', ok = False, stdout = [], stderr = ''failed'',
            exitCode = Some 2, signal = None, message = Some ''Command failed: exit 2''\<rparr>], ?s1)"
    using demo_runCommands_clean by (simp add: demo_config_def)
  have nf: "\<not> failOnCommandError ?cfg"
    by (simp add: demo_config_def)
  then have h2: "\<not> (failOnCommandError ?cfg \<and> filter (\<lambda>r. \<not> ok r)
          [\<lparr>command = ''false'', ok = False, stdout = [], stderr = ''failed'',
            exitCode = Some 1, signal = None, message = Some ''Command failed: false''\<rparr>,
           \<lparr>command = ''true'', ok = True, stdout = [], stderr = [],
            exitCode = None, signal = None, message = None\<rparr>,
           \<lparr>command = ''exit 2'', ok = False, stdout = [], stderr = ''failed'',
            exitCode = Some 2, signal = None, message = Some ''Command failed: exit 2''\<rparr>] \<noteq> [])"
    by blast
  have h3: "git_hasDiff demo_ports (world ?s1) = Inr False"
    by (simp add: demo_ports_def)
  have h4: "summary_write demo_ports [addHeading ''Diff Sentinel'' None,
                           addRaw (''No uncommitted changes detected'' @ newline)] (world ?s1) = Inr ()"
    by (simp add: demo_ports_def)
  from clean_tree_exits_early [OF h1 h2 h3] h4
  have "fst (run demo_ports ?cfg []) = ProcessExit 0"
    and "SetOutput ''changed_files'' ''out.txt'' \<notin> set (trace (snd (run demo_ports ?cfg [])))"
    by blast+
  with nf h3 h4 show ?thesis
    by simp
qed

text \<open>
  Claim C4, as stated, does not hold: with \<open>fail-message\<close> set to \<open>stale\<close>, a diff
  reported and \<open>failOnDiff\<close> set, \<open>core.setFailed\<close> receives \<open>Error: stale\<close>, since
  the outer \<open>catch\<close> puts the error's name in front of its message.
\<close>

theorem diff_failure_message_counterexample:
  "git_hasDiff demo_ports [''out.txt''] = Inr True
   \<and> GitHasDiff (Inr True)
     \<in> set (trace (snd (run demo_ports (demo_config [''gen''] ''stale'' False True) [])))
   \<and> failOnDiff (demo_config [''gen''] ''stale'' False True)
   \<and> fail_message_input (demo_config [''gen''] ''stale'' False True) = ''stale''
   \<and> fst (run demo_ports (demo_config [''gen''] ''stale'' False True) []) = SetFailed ''Error: stale''
   \<and> fst (run demo_ports (demo_config [''gen''] ''stale'' False True) []) \<noteq> SetFailed ''stale''"
  by (simp add: demo_run_stale) (simp add: demo_config_def demo_ports_def)

text \<open>
  Claim C4, amended. When the run reaches the diff gate, git reports a diff, the
  changed files are listed, their diff is printed and the failure summary is written
  without an error, and \<open>failOnDiff\<close> is set, the run ends in \<open>core.setFailed\<close> with
  the text \<open>Error: \<close> followed by the effective fail message: the \<open>fail-message\<close>
  input, or \<open>Generated or formatted files are out of date.\<close> when that input is
  empty.
\<close>

theorem diff_failure_message:
  assumes "runCommands p (commands cfg)
             (emit (StartGroup ''Running commands'') \<lparr>world = w, trace = []\<rparr>) = (Inr results, s1)"
    and "\<not> (failOnCommandError cfg \<and> filter (\<lambda>r. \<not> ok r) results \<noteq> [])"
    and "git_hasDiff p (world s1) = Inr True"
    and "git_getChangedFiles p (world s1) = Inr fs"
    and "git_diff p fs (world s1) = Inr ()"
    and "summary_write p
           [addHeading ''Diff Sentinel Failed'' (Some 1),
            addRaw ((if fail_message_input cfg = []
                     then ''Generated or formatted files are out of date.''
                     else fail_message_input cfg) @ newline),
            addHeading ''Changed files'' (Some 3),
            addList fs,
            addHeading ''How to fix'' (Some 3),
            addCodeBlock (join newline (commands cfg)) ''bash'']
           (world s1) = Inr ()"
    and "failOnDiff cfg"
  shows "fst (run p cfg w) =
           SetFailed (''Error: '' @ (if fail_message_input cfg = []
                                     then ''Generated or formatted files are out of date.''
                                     else fail_message_input cfg))"
proof -
  define sg where "sg = emits (command_failure_events results) (emit EndGroup s1)"
  have wg: "world sg = world s1"
    by (simp add: sg_def emits_def emit_def)
  have body: "script_body p cfg \<lparr>world = w, trace = []\<rparr> = diff_gate p cfg sg"
    using script_body_returned(2) [OF assms(1)] assms(2) by (auto simp add: sg_def)
  have fm: "failMessage cfg = (if fail_message_input cfg = []
                               then ''Generated or formatted files are out of date.''
                               else fail_message_input cfg)"
    by (simp add: failMessage_def default_fail_message_def)
  have fs: "failed_summary cfg fs =
           [addHeading ''Diff Sentinel Failed'' (Some 1),
            addRaw ((if fail_message_input cfg = []
                     then ''Generated or formatted files are out of date.''
                     else fail_message_input cfg) @ newline),
            addHeading ''Changed files'' (Some 3),
            addList fs,
            addHeading ''How to fix'' (Some 3),
            addCodeBlock (join newline (commands cfg)) ''bash'']"
    by (simp add: failed_summary_def fm)
  have "fst (diff_gate p cfg sg) = Inl (new_Error (failMessage cfg))"
    using assms(3-7)
    by (simp add: diff_gate_def wg emit_def emits_def Let_def fs)
  then have "fst (run p cfg w) = SetFailed (''Error: '' @ failMessage cfg)"
    by (cases "diff_gate p cfg sg") (simp add: run_main body failure_text_new_Error)
  then show ?thesis
    by (simp only: fm)
qed

text \<open>
  The conditions on the awaited calls are needed: when the list of changed files cannot
  be fetched, or the summary cannot be written, the failure carries that error instead.
\<close>

lemma diff_failure_without_listing:
  "fst (run demo_ports_unlisted (demo_config [''gen''] ''stale'' False True) [])
     = SetFailed ''Error: not a git repository''"
  by (simp add: demo_defs demo_ports_unlisted_def)

lemma diff_failure_without_summary:
  "fst (run demo_ports_no_summary (demo_config [''gen''] ''stale'' False True) [])
     = SetFailed ''Error: no summary file''"
  by (simp add: demo_defs demo_ports_no_summary_def)

text \<open>The run with \<open>fail-message\<close> set to \<open>stale\<close>, read the amended way.\<close>

theorem diff_failure_message_witness:
  "git_hasDiff demo_ports [''out.txt''] = Inr True
   \<and> git_getChangedFiles demo_ports [''out.txt''] = Inr [''out.txt'']
   \<and> git_diff demo_ports [''out.txt''] [''out.txt''] = Inr ()
   \<and> summary_write demo_ports
         [addHeading ''Diff Sentinel Failed'' (Some 1),
          addRaw (''stale'' @ newline),
          addHeading ''Changed files'' (Some 3),
          addList [''out.txt''],
          addHeading ''How to fix'' (Some 3),
          addCodeBlock ''gen'' ''bash'']
         [''out.txt''] = Inr ()
   \<and> failOnDiff (demo_config [''gen''] ''stale'' False True)
   \<and> fst (run demo_ports (demo_config [''gen''] ''stale'' False True) [])
       = SetFailed ''Error: stale''"
proof -
  let ?cfg = "demo_config [''gen''] ''stale'' False True"
  let ?s1 = "\<lparr>world = [''out.txt''],
       trace = [StartGroup ''Running commands'', Execa ''gen'']\<rparr>"
  have h1: "runCommands demo_ports (commands ?cfg)
       (emit (StartGroup ''Running commands'') \<lparr>world = [], trace = []\<rparr>) =
     (Inr [\<lparr>command = ''gen'', ok = True, stdout = ''a'' @ newline @ ''b'', stderr = [],
            exitCode = None, signal = None, message = None\<rparr>], ?s1)"
    using demo_runCommands_gen by (simp add: demo_config_def)
  have h2: "\<not> (failOnCommandError ?cfg \<and> filter (\<lambda>r. \<not> ok r)
        [\<lparr>command = ''gen'', ok = True, stdout = ''a'' @ newline @ ''b'', stderr = [],
            exitCode = None, signal = None, message = None\<rparr>] \<noteq> [])"
    by simp
  have h3: "git_hasDiff demo_ports (world ?s1) = Inr True"
    by (simp add: demo_ports_def)
  have h4: "git_getChangedFiles demo_ports (world ?s1) = Inr [''out.txt'']"
    by (simp add: demo_ports_def)
  have h5: "git_diff demo_ports [''out.txt''] (world ?s1) = Inr ()"
    by (simp add: demo_ports_def)
  have h6: "summary_write demo_ports
           [addHeading ''Diff Sentinel Failed'' (Some 1),
            addRaw ((if fail_message_input ?cfg = []
                     then ''Generated or formatted files are out of date.''
                     else fail_message_input ?cfg) @ newline),
            addHeading ''Changed files'' (Some 3),
            addList [''out.txt''],
            addHeading ''How to fix'' (Some 3),
            addCodeBlock (join newline (commands ?cfg)) ''bash'']
           (world ?s1) = Inr ()"
    by (simp add: demo_ports_def)
  have h7: "failOnDiff ?cfg"
    by (simp add: demo_config_def)
  have "fst (run demo_ports ?cfg []) = SetFailed ''Error: stale''"
    using diff_failure_message [OF h1 h2 h3 h4 h5 h6 h7] by (simp add: demo_config_def)
  moreover have "summary_write demo_ports
         [addHeading ''Diff Sentinel Failed'' (Some 1),
          addRaw (''stale'' @ newline),
          addHeading ''Changed files'' (Some 3),
          addList [''out.txt''],
          addHeading ''How to fix'' (Some 3),
          addCodeBlock ''gen'' ''bash'']
         [''out.txt''] = Inr ()"
    by (simp add: demo_ports_def)
  ultimately show ?thesis
    using h3 h4 h5 h7 by simp
qed

text \<open>
  Claim C9. The effective fail message is never empty, and when the \<open>fail-message\<close>
  input is empty it is \<open>Generated or formatted files are out of date.\<close>: that text is
  the raw block of the failure summary the diff gate writes and, under \<open>failOnDiff\<close>
  once the summary is written, the message of the failure the gate raises.
\<close>

theorem failMessage_defaults:
  fixes p :: "'w ports"
  shows "failMessage cfg \<noteq> []
   \<and> (fail_message_input cfg = [] \<longrightarrow>
        failMessage cfg = ''Generated or formatted files are out of date.''
        \<and> (\<forall>fs. GitDiff fs (Inr ()) \<in> set (trace (snd (run p cfg w))) \<longrightarrow>
              (\<exists>written.
                 SummaryWrite
                   [addHeading ''Diff Sentinel Failed'' (Some 1),
                    addRaw (''Generated or formatted files are out of date.'' @ newline),
                    addHeading ''Changed files'' (Some 3),
                    addList fs,
                    addHeading ''How to fix'' (Some 3),
                    addCodeBlock (join newline (commands cfg)) ''bash'']
                   written
                   \<in> set (trace (snd (run p cfg w)))
                 \<and> (failOnDiff cfg \<and> written = Inr () \<longrightarrow>
                      fst (run p cfg w)
                        = SetFailed ''Error: Generated or formatted files are out of date.''))))"
proof -
  have nonempty: "failMessage cfg \<noteq> []"
    by (simp add: failMessage_def default_fail_message_def)
  have used: "\<exists>written.
                 SummaryWrite
                   [addHeading ''Diff Sentinel Failed'' (Some 1),
                    addRaw (''Generated or formatted files are out of date.'' @ newline),
                    addHeading ''Changed files'' (Some 3),
                    addList fs,
                    addHeading ''How to fix'' (Some 3),
                    addCodeBlock (join newline (commands cfg)) ''bash'']
                   written
                   \<in> set (trace (snd (run p cfg w)))
                 \<and> (failOnDiff cfg \<and> written = Inr () \<longrightarrow>
                      fst (run p cfg w)
                        = SetFailed ''Error: Generated or formatted files are out of date.'')"
    if empty: "fail_message_input cfg = []"
      and reported: "GitDiff fs (Inr ()) \<in> set (trace (snd (run p cfg w)))" for fs
  proof -
    have fm: "failMessage cfg = ''Generated or formatted files are out of date.''"
      using empty by (simp add: failMessage_def default_fail_message_def)
    obtain sg :: "'w state" where sg:
      "\<forall>e\<in>set (trace sg). before_diff_gate e"
      "trace (snd (run p cfg w)) =
           trace sg @ diff_detail_events fs
           @ [SummaryWrite (failed_summary cfg fs)
                (summary_write p (failed_summary cfg fs) (world sg))]"
      "summary_write p (failed_summary cfg fs) (world sg) = Inr () \<and> failOnDiff cfg \<longrightarrow>
           fst (run p cfg w) = SetFailed (''Error: '' @ failMessage cfg)"
      by (rule run_diff_reported [OF reported])
    have items: "failed_summary cfg fs =
                   [addHeading ''Diff Sentinel Failed'' (Some 1),
                    addRaw (''Generated or formatted files are out of date.'' @ newline),
                    addHeading ''Changed files'' (Some 3),
                    addList fs,
                    addHeading ''How to fix'' (Some 3),
                    addCodeBlock (join newline (commands cfg)) ''bash'']"
      by (simp add: failed_summary_def fm)
    have "SummaryWrite (failed_summary cfg fs)
            (summary_write p (failed_summary cfg fs) (world sg))
            \<in> set (trace (snd (run p cfg w)))"
      by (simp add: sg(2))
    moreover have "failOnDiff cfg \<and> summary_write p (failed_summary cfg fs) (world sg) = Inr ()
                     \<longrightarrow> fst (run p cfg w)
                           = SetFailed ''Error: Generated or formatted files are out of date.''"
      using sg(3) by (simp add: fm)
    ultimately show ?thesis
      unfolding items by blast
  qed
  have "fail_message_input cfg = [] \<longrightarrow>
          failMessage cfg = ''Generated or formatted files are out of date.''"
    by (simp add: failMessage_def default_fail_message_def)
  with nonempty used show ?thesis
    by blast
qed

text \<open>In the example world, with no \<open>fail-message\<close> and \<open>gen\<close> as the only command.\<close>

theorem failMessage_defaults_witness:
  "fail_message_input (demo_config [''gen''] [] False True) = []
   \<and> failOnDiff (demo_config [''gen''] [] False True)
   \<and> GitDiff [''out.txt''] (Inr ())
       \<in> set (trace (snd (run demo_ports (demo_config [''gen''] [] False True) [])))
   \<and> failMessage (demo_config [''gen''] [] False True)
       = ''Generated or formatted files are out of date.''
   \<and> SummaryWrite
          [addHeading ''Diff Sentinel Failed'' (Some 1),
           addRaw (''Generated or formatted files are out of date.'' @ newline),
           addHeading ''Changed files'' (Some 3),
           addList [''out.txt''],
           addHeading ''How to fix'' (Some 3),
           addCodeBlock ''gen'' ''bash'']
          (Inr ())
       \<in> set (trace (snd (run demo_ports (demo_config [''gen''] [] False True) [])))
   \<and> fst (run demo_ports (demo_config [''gen''] [] False True) [])
       = SetFailed ''Error: Generated or formatted files are out of date.''"
proof -
  have h1: "fail_message_input (demo_config [''gen''] [] False True) = []"
    by (simp add: demo_config_def)
  have h2: "failOnDiff (demo_config [''gen''] [] False True)"
    by (simp add: demo_config_def)
  have h3: "GitDiff [''out.txt''] (Inr ())
       \<in> set (trace (snd (run demo_ports (demo_config [''gen''] [] False True) [])))"
    by (simp add: demo_run_default)
  from failMessage_defaults [of "demo_config [''gen''] [] False True" demo_ports "[]"] h1
  have "failMessage (demo_config [''gen''] [] False True)
          = ''Generated or formatted files are out of date.''"
    by blast
  with h1 h2 h3 show ?thesis
    by (simp add: demo_run_default)
qed

end
